theory Spec2Isabelle
  imports Main "HOL-Library.AList"
begin

section \<open>Values exchanged between clients\<close>

text \<open>
  Payloads are JavaScript values of type \<open>any\<close>. The model keeps the JSON part of the
  language plus \<open>undefined\<close>. Numbers are the integers (member numbers, enum ordinals); an
  object is the list of its own properties, read first binding first.
\<close>

datatype jsval =
    JUndefined
  | JNull
  | JBool bool
  | JNum int
  | JStr string
  | JArr "jsval list"
  | JObj "(string \<times> jsval) list"

datatype jstype = TUndefined | TObject | TBoolean | TNumber | TString

fun typeof :: "jsval \<Rightarrow> jstype" where
  "typeof JUndefined = TUndefined"
| "typeof JNull = TObject"
| "typeof (JBool b) = TBoolean"
| "typeof (JNum n) = TNumber"
| "typeof (JStr s) = TString"
| "typeof (JArr xs) = TObject"
| "typeof (JObj kvs) = TObject"

text \<open>
  Modelled from the spec: \<open>isObject\<close> of \<open>utils\<close> is not among the sources; the
  messaging layer uses it as the structural check "is an object" on decoded payloads:
  true of a non-null, non-array object and of nothing else.
\<close>

fun isObject :: "jsval \<Rightarrow> bool" where
  "isObject (JObj kvs) = True"
| "isObject v = False"

text \<open>
  Property read \<open>v.k\<close> for the property names of the protocol (\<open>id\<close>, \<open>ok\<close>, \<open>data\<close>,
  \<open>query\<close>, \<open>type\<close>, \<open>message\<close>, \<open>Type\<close>, \<open>Content\<close>, \<open>Sender\<close>, \<open>Dictionary\<close>), none of
  which a primitive or an array has: a missing property reads as \<open>undefined\<close>.
\<close>

fun jsget :: "jsval \<Rightarrow> string \<Rightarrow> jsval" where
  "jsget (JObj kvs) k = (case map_of kvs k of Some v \<Rightarrow> v | None \<Rightarrow> JUndefined)"
| "jsget v k = JUndefined"

datatype js_error = Error string | TypeError

datatype rejection = Reason jsval | Thrown js_error

datatype settled = Resolved jsval | Rejected rejection

section \<open>Host game state and module state\<close>

text \<open>
  A host \<open>Character\<close> object. \<open>cref\<close> is the identity of the object: the source compares
  characters by reference (\<open>includes\<close>, \<open>===\<close>), and two objects may carry the same
  member number. \<open>MemberNumber\<close> is \<open>number | undefined\<close>.
\<close>

record Character =
  cref :: nat
  ID :: nat
  MemberNumber :: "int option"
  Name :: string

record BCX_effects =
  Effect :: "string list"

definition defaultBCXEffects :: BCX_effects where
  "defaultBCXEffects = \<lparr> Effect = [] \<rparr>"

text \<open>
  The two classes \<open>ChatroomCharacter\<close> and \<open>PlayerCharacter\<close> share their fields;
  \<open>isPlayer\<close> tells the variant.
\<close>

record ChatroomCharacter =
  isPlayer :: bool
  BCXVersion :: "string option"
  Character :: Character
  Effects :: BCX_effects
  typingIndicatorEnable :: bool

text \<open>
  What the code reads from the host and from collaborating modules:
  the globals \<open>Player\<close> and \<open>ChatRoomCharacter\<close>, the functions
  \<open>ServerPlayerIsInChatRoom\<close> and \<open>ServerChatRoomGetAllowItem\<close>, the flag
  \<open>firstTimeInit\<close> of the storage module and the constant \<open>VERSION\<close>.
\<close>

record host =
  Player :: Character
  ChatRoomCharacter :: "Character list"
  ServerPlayerIsInChatRoom :: bool
  firstTimeInit :: bool
  ServerChatRoomGetAllowItem :: "Character \<Rightarrow> Character \<Rightarrow> bool"
  VERSION :: string

text \<open>The payload handed to \<open>ServerSend("ChatRoomChat", ...)\<close>.\<close>

record ChatRoomChat =
  Content :: string
  Type :: string
  Target :: "int option"
  Dictionary :: jsval

text \<open>
  \<open>resolve\<close> and \<open>reject\<close> are the two continuations of one promise; each is kept as the
  handle of the promise it settles. \<open>timeout\<close> is the timer handle.
\<close>

record IPendingQuery =
  target :: int
  resolve :: nat
  reject :: nat
  timeout :: nat

text \<open>
  The closure given to \<open>BCX_setTimeout\<close> in \<open>sendQuery\<close>, with what it captures:
  correlation id, target, query type and the \<open>reject\<close> continuation.
\<close>

datatype timer_callback = QueryTimeout string int string nat

datatype level = Debug | Warn | Err

type_synonym console_entry = "level \<times> string \<times> jsval list"

record bcx =
  pendingQueries :: "(string \<times> IPendingQuery) list"
  timers :: "(nat \<times> nat \<times> timer_callback) list"
  next_timer :: nat
  promises :: "(nat \<times> settled) list"
  next_promise :: nat
  ServerSend :: "ChatRoomChat list"
  console :: "console_entry list"
  currentRoomCharacters :: "ChatroomCharacter list"
  CharacterRefresh_calls :: nat
  announceSelf_calls :: nat

definition console_log :: "level \<Rightarrow> string \<Rightarrow> jsval list \<Rightarrow> bcx \<Rightarrow> bcx" where
  "console_log l text args s = s\<lparr> console := console s @ [(l, text, args)] \<rparr>"

text \<open>A promise settles once: settling a settled promise changes nothing.\<close>

definition settle :: "nat \<Rightarrow> settled \<Rightarrow> bcx \<Rightarrow> bcx" where
  "settle p outcome s =
     (case map_of (promises s) p of
        Some previous \<Rightarrow> s
      | None \<Rightarrow> s\<lparr> promises := promises s @ [(p, outcome)] \<rparr>)"

definition clearTimeout :: "nat \<Rightarrow> bcx \<Rightarrow> bcx" where
  "clearTimeout t s = s\<lparr> timers := AList.delete t (timers s) \<rparr>"

section \<open>messaging.ts\<close>

definition sendHiddenMessage :: "string \<Rightarrow> jsval \<Rightarrow> int option \<Rightarrow> host \<Rightarrow> bcx \<Rightarrow> bcx" where
  "sendHiddenMessage type message Target' h s =
     (if \<not> ServerPlayerIsInChatRoom h \<or> firstTimeInit h then s
      else s\<lparr> ServerSend := ServerSend s @
             [\<lparr> Content = ''BCXMsg'', Type = ''Hidden'', Target = Target',
                Dictionary = JObj [(''type'', JStr type), (''message'', message)] \<rparr>] \<rparr>)"

text \<open>
  \<open>sendQuery\<close> returns the handle of the promise it creates. \<open>qid\<close> is the value
  \<open>uuidv4()\<close> returns.
\<close>

definition sendQuery ::
  "string \<Rightarrow> jsval \<Rightarrow> int \<Rightarrow> nat \<Rightarrow> string \<Rightarrow> host \<Rightarrow> bcx \<Rightarrow> nat \<times> bcx" where
  "sendQuery type data target' timeout' qid h s =
     (let p = next_promise s; s0 = s\<lparr> next_promise := Suc p \<rparr> in
      if firstTimeInit h then
        (p, settle p (Rejected (Reason (JStr ''Unavailable during init''))) s0)
      else
        let t = next_timer s0;
            s1 = s0\<lparr> timers := timers s0 @ [(t, timeout', QueryTimeout qid target' type p)],
                     next_timer := Suc t \<rparr>;
            info = \<lparr> target = target', resolve = p, reject = p, timeout = t \<rparr>;
            s2 = s1\<lparr> pendingQueries := AList.update qid info (pendingQueries s1) \<rparr>
        in (p, sendHiddenMessage ''query''
                 (JObj [(''id'', JStr qid), (''query'', JStr type), (''data'', data)])
                 (Some target') h s2))"

text \<open>The host runs the callback of timer \<open>t\<close>; a cleared timer never runs.\<close>

definition timer_fire :: "nat \<Rightarrow> bcx \<Rightarrow> bcx" where
  "timer_fire t s =
     (case map_of (timers s) t of
        None \<Rightarrow> s
      | Some (delay, QueryTimeout qid target' type rej) \<Rightarrow>
          settle rej (Rejected (Reason (JStr ''Timed out'')))
            ((console_log Warn ''BCX: Query timed out'' [JNum target', JStr type]
               (s\<lparr> timers := AList.delete t (timers s) \<rparr>))
             \<lparr> pendingQueries := AList.delete qid (pendingQueries s) \<rparr>))"

definition queryAnswer_handler :: "int \<Rightarrow> jsval \<Rightarrow> bcx \<Rightarrow> bcx" where
  "queryAnswer_handler sender message s =
     (if \<not> isObject message \<or> typeof (jsget message ''id'') \<noteq> TString
          \<or> typeof (jsget message ''ok'') \<noteq> TBoolean
      then console_log Warn ''BCX: Invalid queryAnswer'' [JNum sender, message] s
      else case jsget message ''id'' of
        JStr qid \<Rightarrow>
          (case map_of (pendingQueries s) qid of
             None \<Rightarrow> console_log Warn ''BCX: Response to unknown query'' [JNum sender, message] s
           | Some info \<Rightarrow>
               if target info \<noteq> target info
               then console_log Warn ''BCX: Response to query not from target''
                      [JNum sender, message] s
               else
                 let s1 = clearTimeout (timeout info) s;
                     s2 = s1\<lparr> pendingQueries := AList.delete qid (pendingQueries s1) \<rparr>
                 in if jsget message ''ok'' = JBool True
                    then settle (resolve info) (Resolved (jsget message ''data'')) s2
                    else settle (reject info) (Rejected (Reason (jsget message ''data''))) s2)
      | other \<Rightarrow> s)"

section \<open>characters.ts: the registry\<close>

text \<open>\<open>ChatRoomCharacter.includes(c)\<close>: membership by object identity.\<close>

definition includes_ref :: "Character list \<Rightarrow> Character \<Rightarrow> bool" where
  "includes_ref cs c = (cref c \<in> cref ` set cs)"

text \<open>
  The constructor shared by both classes; \<open>player\<close> is true for \<open>new PlayerCharacter\<close>.
  The interpolated values of the debug line are listed as its arguments.
\<close>

definition constructed :: "bool \<Rightarrow> Character \<Rightarrow> host \<Rightarrow> ChatroomCharacter" where
  "constructed player character h =
     \<lparr> isPlayer = player,
       BCXVersion = (if ID character = 0 then Some (VERSION h) else None),
       Character = character,
       Effects = defaultBCXEffects,
       typingIndicatorEnable = True \<rparr>"

definition new_ChatroomCharacter :: "bool \<Rightarrow> Character \<Rightarrow> host \<Rightarrow> bcx \<Rightarrow> ChatroomCharacter \<times> bcx" where
  "new_ChatroomCharacter player character h s =
     (constructed player character h,
      console_log Debug ''BCX: Loaded character''
        [JStr (Name character),
         (case MemberNumber character of None \<Rightarrow> JUndefined | Some n \<Rightarrow> JNum n)] s)"

text \<open>\<open>cs.splice(i, 1)\<close>\<close>

definition splice1 :: "nat \<Rightarrow> 'a list \<Rightarrow> 'a list" where
  "splice1 i cs = take i cs @ drop (Suc i) cs"

text \<open>
  The loop of \<open>cleanOldCharacters\<close>, from the last index down to 0; the first argument is
  the number of indices still to visit, so the index visited is one less.
\<close>

fun cleanOldCharacters_loop :: "host \<Rightarrow> nat \<Rightarrow> ChatroomCharacter list \<Rightarrow> ChatroomCharacter list" where
  "cleanOldCharacters_loop h 0 cs = cs"
| "cleanOldCharacters_loop h (Suc i) cs =
     cleanOldCharacters_loop h i
       (if \<not> isPlayer (cs ! i) \<and> \<not> includes_ref (ChatRoomCharacter h) (Character (cs ! i))
        then splice1 i cs else cs)"

definition cleanOldCharacters :: "host \<Rightarrow> bcx \<Rightarrow> bcx" where
  "cleanOldCharacters h s =
     s\<lparr> currentRoomCharacters :=
          cleanOldCharacters_loop h (length (currentRoomCharacters s)) (currentRoomCharacters s) \<rparr>"

text \<open>
  \<open>memberNumber\<close> is a number here, so the first test of the source
  (\<open>typeof memberNumber !== "number"\<close>) is decided by the type.
\<close>

definition getChatroomCharacter :: "int \<Rightarrow> host \<Rightarrow> bcx \<Rightarrow> ChatroomCharacter option \<times> bcx" where
  "getChatroomCharacter memberNumber h s =
     (let s1 = cleanOldCharacters h s in
      case find (\<lambda>c. MemberNumber (Character c) = Some memberNumber) (currentRoomCharacters s1) of
        Some character \<Rightarrow> (Some character, s1)
      | None \<Rightarrow>
          if MemberNumber (Player h) = Some memberNumber then
            (let (character, s2) = new_ChatroomCharacter True (Player h) h s1 in
             (Some character,
              s2\<lparr> currentRoomCharacters := currentRoomCharacters s2 @ [character] \<rparr>))
          else
            (case find (\<lambda>c. MemberNumber c = Some memberNumber) (ChatRoomCharacter h) of
               None \<Rightarrow> (None, s1)
             | Some BCCharacter \<Rightarrow>
                 (let (character, s2) = new_ChatroomCharacter False BCCharacter h s1 in
                  (Some character,
                   s2\<lparr> currentRoomCharacters := currentRoomCharacters s2 @ [character] \<rparr>))))"

definition getPlayerCharacter :: "host \<Rightarrow> bcx \<Rightarrow> ChatroomCharacter \<times> bcx" where
  "getPlayerCharacter h s =
     (case find (\<lambda>c. cref (Character c) = cref (Player h)) (currentRoomCharacters s) of
        Some character \<Rightarrow> (character, s)
      | None \<Rightarrow>
          (let (character, s2) = new_ChatroomCharacter True (Player h) h s in
           (character, s2\<lparr> currentRoomCharacters := currentRoomCharacters s2 @ [character] \<rparr>)))"

definition hasAccessToPlayer :: "host \<Rightarrow> ChatroomCharacter \<Rightarrow> bool" where
  "hasAccessToPlayer h this = ServerChatRoomGetAllowItem h (Character this) (Player h)"

section \<open>messaging.ts: answering queries and dispatching inbound messages\<close>

type_synonym queryResolveFunction = "bool \<Rightarrow> jsval \<Rightarrow> bcx \<Rightarrow> bcx"

type_synonym queryHandler = "ChatroomCharacter \<Rightarrow> queryResolveFunction \<Rightarrow> jsval \<Rightarrow> bcx \<Rightarrow> bcx"

text \<open>
  \<open>queryHandlers\<close> is a plain object (\<open>= {}\<close>) read as \<open>queryHandlers[message.query]\<close>
  with a string the peer chooses. Such a read finds the object's own properties (the
  registered handlers) and, failing that, the properties every object inherits from
  \<open>Object.prototype\<close>: eleven functions and the accessor \<open>__proto__\<close>, whose value is an
  object.
\<close>

definition Object_prototype_functions :: "string list" where
  "Object_prototype_functions =
     [''constructor'', ''hasOwnProperty'', ''isPrototypeOf'', ''propertyIsEnumerable'',
      ''toLocaleString'', ''toString'', ''valueOf'', ''__defineGetter__'',
      ''__defineSetter__'', ''__lookupGetter__'', ''__lookupSetter__'']"

datatype 'h member = Missing | Own 'h | InheritedFunction string | InheritedObject

definition queryHandlers_get :: "(string \<rightharpoonup> 'h) \<Rightarrow> string \<Rightarrow> 'h member" where
  "queryHandlers_get queryHandlers k =
     (case queryHandlers k of
        Some handler \<Rightarrow> Own handler
      | None \<Rightarrow>
          if k = ''__proto__'' then InheritedObject
          else if k \<in> set Object_prototype_functions then InheritedFunction k
          else Missing)"

text \<open>
  An inherited function called as \<open>handler(character, resolve, data)\<close>, that is without a
  receiver: \<open>toString\<close> and \<open>constructor\<close> return, the others convert the missing
  receiver to an object and throw. None of them calls \<open>resolve\<close>.
\<close>

definition call_inherited :: "string \<Rightarrow> bcx \<Rightarrow> js_error + bcx" where
  "call_inherited k s = (if k = ''toString'' \<or> k = ''constructor'' then Inr s else Inl TypeError)"

text \<open>The closure passed to a query handler as its \<open>resolve\<close> argument.\<close>

definition replyFn :: "string \<Rightarrow> int \<Rightarrow> host \<Rightarrow> queryResolveFunction" where
  "replyFn qid sender h ok data s =
     sendHiddenMessage ''queryAnswer''
       (JObj [(''id'', JStr qid), (''ok'', JBool ok), (''data'', data)]) (Some sender) h s"

definition query_handler ::
  "(string \<rightharpoonup> queryHandler) \<Rightarrow> host \<Rightarrow> int \<Rightarrow> jsval \<Rightarrow> bcx \<Rightarrow> js_error + bcx" where
  "query_handler queryHandlers h sender message s =
     (if \<not> isObject message \<or> typeof (jsget message ''id'') \<noteq> TString
          \<or> typeof (jsget message ''query'') \<noteq> TString
      then Inr (console_log Warn ''BCX: Invalid query'' [JNum sender, message] s)
      else
        let (found, s1) = getChatroomCharacter sender h s;
            refuse = sendHiddenMessage ''queryAnswer''
                       (JObj [(''id'', jsget message ''id''), (''ok'', JBool False)]) None h
        in case found of
          None \<Rightarrow> Inr (refuse s1)
        | Some character \<Rightarrow>
            if \<not> hasAccessToPlayer h character then Inr (refuse s1)
            else
              case jsget message ''query'' of
                JStr query \<Rightarrow>
                  (case queryHandlers_get queryHandlers query of
                     Missing \<Rightarrow>
                       Inr (refuse (console_log Warn ''BCX: Query no handler''
                                      [JNum sender, message] s1))
                   | Own handler \<Rightarrow>
                       (case jsget message ''id'' of
                          JStr qid \<Rightarrow>
                            Inr (handler character (replyFn qid sender h)
                                   (jsget message ''data'') s1)
                        | other \<Rightarrow> Inr s1)
                   | InheritedFunction k \<Rightarrow> call_inherited k s1
                   | InheritedObject \<Rightarrow> Inl TypeError)
              | other \<Rightarrow> Inr s1)"

text \<open>The test \<open>!character || !character.hasAccessToPlayer()\<close> of the query handler.\<close>

definition access_denied :: "host \<Rightarrow> ChatroomCharacter option \<Rightarrow> bool" where
  "access_denied h found = (case found of None \<Rightarrow> True | Some c \<Rightarrow> \<not> hasAccessToPlayer h c)"

definition somethingChanged_handler :: "(int \<Rightarrow> bcx \<Rightarrow> bcx) list \<Rightarrow> int \<Rightarrow> jsval \<Rightarrow> bcx \<Rightarrow> bcx" where
  "somethingChanged_handler changeHandlers sender message s =
     foldl (\<lambda>s' handler. handler sender s') s changeHandlers"

text \<open>The table \<open>hiddenMessageHandlers\<close> as this module fills it.\<close>

definition hiddenMessageHandlers ::
  "(string \<rightharpoonup> queryHandler) \<Rightarrow> (int \<Rightarrow> bcx \<Rightarrow> bcx) list \<Rightarrow> host \<Rightarrow>
     (string \<rightharpoonup> (int \<Rightarrow> jsval \<Rightarrow> bcx \<Rightarrow> js_error + bcx))" where
  "hiddenMessageHandlers queryHandlers changeHandlers h =
     [''query'' \<mapsto> query_handler queryHandlers h,
      ''queryAnswer'' \<mapsto> (\<lambda>sender message s. Inr (queryAnswer_handler sender message s)),
      ''somethingChanged'' \<mapsto>
        (\<lambda>sender message s. Inr (somethingChanged_handler changeHandlers sender message s))]"

text \<open>
  The hook on \<open>ChatRoomMessage\<close>. Its three ways out: it hands the message on to the
  host (\<open>next(args)\<close>), it returns without calling a handler, or it calls one.
\<close>

datatype 'r hook_outcome = CallNext | Returned bcx | HandlerCalled 'r

definition ChatRoomMessage_hook ::
  "(string \<rightharpoonup> (int \<Rightarrow> jsval \<Rightarrow> bcx \<Rightarrow> 'r)) \<Rightarrow> host \<Rightarrow> jsval \<Rightarrow> bcx \<Rightarrow> 'r hook_outcome" where
  "ChatRoomMessage_hook handlers h data s =
     (if jsget data ''Type'' = JStr ''Hidden'' \<and> jsget data ''Content'' = JStr ''BCXMsg''
         \<and> typeof (jsget data ''Sender'') = TNumber
      then
        case jsget data ''Sender'' of
          JNum sender \<Rightarrow>
            if MemberNumber (Player h) = Some sender \<or> firstTimeInit h then Returned s
            else if \<not> isObject (jsget data ''Dictionary'') then
              Returned (console_log Warn ''BCX: Hidden message no Dictionary'' [data] s)
            else
              (let type = jsget (jsget data ''Dictionary'') ''type'';
                   message = jsget (jsget data ''Dictionary'') ''message''
               in case type of
                    JStr tag \<Rightarrow>
                      (case handlers tag of
                         None \<Rightarrow>
                           Returned (console_log Warn ''BCX: Hidden message no handler''
                                       [JNum sender, type, message] s)
                       | Some handler \<Rightarrow> HandlerCalled (handler sender message s))
                  | other \<Rightarrow> Returned s)
        | other \<Rightarrow> Returned s
      else CallNext)"

section \<open>characters.ts: the two variants of a character\<close>

text \<open>The getter \<open>MemberNumber\<close> of a proxy.\<close>

definition get_MemberNumber :: "ChatroomCharacter \<Rightarrow> js_error + int" where
  "get_MemberNumber this =
     (case MemberNumber (Character this) of
        None \<Rightarrow> Inl (Error ''Character without MemberNumber'')
      | Some n \<Rightarrow> Inr n)"

text \<open>
  A promise derived with \<open>then\<close> or \<open>catch\<close> settles as a function of how the promise
  before it settles. A callback returns a value or throws, and may write to the console.
\<close>

type_synonym 'a callback = "'a \<Rightarrow> bcx \<Rightarrow> (js_error + jsval) \<times> bcx"

definition callback_result :: "(js_error + jsval) \<times> bcx \<Rightarrow> settled \<times> bcx" where
  "callback_result r =
     (case r of (Inl e, s) \<Rightarrow> (Rejected (Thrown e), s) | (Inr v, s) \<Rightarrow> (Resolved v, s))"

fun promise_then :: "jsval callback \<Rightarrow> settled \<Rightarrow> bcx \<Rightarrow> settled \<times> bcx" where
  "promise_then f (Resolved v) s = callback_result (f v s)"
| "promise_then f (Rejected r) s = (Rejected r, s)"

fun promise_catch :: "rejection callback \<Rightarrow> settled \<Rightarrow> bcx \<Rightarrow> settled \<times> bcx" where
  "promise_catch g (Resolved v) s = (Resolved v, s)"
| "promise_catch g (Rejected r) s = callback_result (g r s)"

text \<open>What the console shows for a rejection.\<close>

fun rejection_value :: "rejection \<Rightarrow> jsval" where
  "rejection_value (Reason v) = v"
| "rejection_value (Thrown (Error m)) = JStr m"
| "rejection_value (Thrown TypeError) = JStr ''TypeError''"

text \<open>
  The \<open>then\<close> callback of every remote method: a shape check on the answer, an error
  line and \<open>throw new Error("Bad data")\<close> when it fails, and otherwise the value the
  method returns (the answer itself for most methods).
\<close>

definition validate_answer :: "string \<Rightarrow> (jsval \<Rightarrow> bool) \<Rightarrow> (jsval \<Rightarrow> jsval) \<Rightarrow> jsval callback" where
  "validate_answer query valid result data s =
     (if \<not> valid data
      then (Inl (Error ''Bad data''),
            console_log Err (''BCX: Bad data during '' @ query @ '' query'') [data] s)
      else (Inr (result data), s))"

definition is_boolean :: "jsval \<Rightarrow> bool" where
  "is_boolean data = (typeof data = TBoolean)"

text \<open>
  Each remote method is in two parts: the call, which reads \<open>this.MemberNumber\<close> and
  sends the query, returning the handle of the promise of \<open>sendQuery\<close>; and how the promise
  the method returns settles, given how that of \<open>sendQuery\<close> does.
\<close>

definition ChatroomCharacter_getPermissionAccess ::
  "ChatroomCharacter \<Rightarrow> string \<Rightarrow> string \<Rightarrow> host \<Rightarrow> bcx \<Rightarrow> js_error + nat \<times> bcx" where
  "ChatroomCharacter_getPermissionAccess this permission qid h s =
     (case get_MemberNumber this of
        Inl e \<Rightarrow> Inl e
      | Inr n \<Rightarrow> Inr (sendQuery ''permissionAccess'' (JStr permission) n 10000 qid h s))"

definition getPermissionAccess_catch :: "ChatroomCharacter \<Rightarrow> string \<Rightarrow> rejection callback" where
  "getPermissionAccess_catch this permission err s =
     (case get_MemberNumber this of
        Inl e \<Rightarrow> (Inl e, s)
      | Inr n \<Rightarrow>
          (Inr (JBool False),
           console_log Err ''BCX: Error while querying permission access''
             [JStr permission, JStr (Name (Character this)), JNum n, rejection_value err] s))"

definition getPermissionAccess_settles ::
  "ChatroomCharacter \<Rightarrow> string \<Rightarrow> settled \<Rightarrow> bcx \<Rightarrow> settled \<times> bcx" where
  "getPermissionAccess_settles this permission answer s =
     (let (r, s1) = promise_then (validate_answer ''permissionAccess'' is_boolean (\<lambda>d. d)) answer s
      in promise_catch (getPermissionAccess_catch this permission) r s1)"

text \<open>The other remote methods have no \<open>catch\<close>.\<close>

definition remote_method_settles ::
  "string \<Rightarrow> (jsval \<Rightarrow> bool) \<Rightarrow> (jsval \<Rightarrow> jsval) \<Rightarrow> settled \<Rightarrow> bcx \<Rightarrow> settled \<times> bcx" where
  "remote_method_settles query valid result answer s =
     promise_then (validate_answer query valid result) answer s"

definition ChatroomCharacter_setPermission ::
  "ChatroomCharacter \<Rightarrow> string \<Rightarrow> string \<Rightarrow> jsval \<Rightarrow> string \<Rightarrow> host \<Rightarrow> bcx \<Rightarrow> js_error + nat \<times> bcx" where
  "ChatroomCharacter_setPermission this permission type target' qid h s =
     (case get_MemberNumber this of
        Inl e \<Rightarrow> Inl e
      | Inr n \<Rightarrow>
          Inr (sendQuery ''editPermission''
                 (JObj [(''permission'', JStr permission), (''edit'', JStr type),
                        (''target'', target')]) n 10000 qid h s))"

definition setPermission_settles :: "settled \<Rightarrow> bcx \<Rightarrow> settled \<times> bcx" where
  "setPermission_settles = remote_method_settles ''editPermission'' is_boolean (\<lambda>d. d)"

text \<open>
  The functions of the authority module that the self variant calls; they are not among
  the sources and are taken as they come.
\<close>

record authority =
  setPermissionSelfAccess :: "string \<Rightarrow> bool \<Rightarrow> ChatroomCharacter \<Rightarrow> bcx \<Rightarrow> bool \<times> bcx"
  setPermissionMinAccess :: "string \<Rightarrow> int \<Rightarrow> ChatroomCharacter \<Rightarrow> bcx \<Rightarrow> bool \<times> bcx"

text \<open>\<open>Promise.resolve(x)\<close> is a promise already resolved with \<open>x\<close>.\<close>

definition PlayerCharacter_setPermission ::
  "authority \<Rightarrow> ChatroomCharacter \<Rightarrow> string \<Rightarrow> string \<Rightarrow> jsval \<Rightarrow> bcx \<Rightarrow> js_error + settled \<times> bcx" where
  "PlayerCharacter_setPermission auth this permission type target' s =
     (if type = ''self'' then
        (case target' of
           JBool b \<Rightarrow>
             (let (r, s1) = setPermissionSelfAccess auth permission b this s
              in Inr (Resolved (JBool r), s1))
         | other \<Rightarrow> Inl (Error ''Invalid target value for self permission edit''))
      else
        (case target' of
           JNum n \<Rightarrow>
             (let (r, s1) = setPermissionMinAccess auth permission n this s
              in Inr (Resolved (JBool r), s1))
         | other \<Rightarrow> Inl (Error ''Invalid target value for min permission edit'')))"

section \<open>characters.ts: rebuilding the effects of the player\<close>

text \<open>
  A builder mutates the record it is given; here it returns the mutated record.
  \<open>player.Effects = effects\<close> updates the proxy \<open>getPlayerCharacter\<close> found or made.
\<close>

type_synonym effectBuilder = "BCX_effects \<Rightarrow> BCX_effects"

definition registerEffectBuilder :: "effectBuilder \<Rightarrow> effectBuilder list \<Rightarrow> effectBuilder list" where
  "registerEffectBuilder builder effectBuilderFunctions = effectBuilderFunctions @ [builder]"

fun run_builders :: "effectBuilder list \<Rightarrow> BCX_effects \<Rightarrow> BCX_effects" where
  "run_builders [] effects = effects"
| "run_builders (builder # rest) effects = run_builders rest (builder effects)"

fun set_player_Effects :: "host \<Rightarrow> BCX_effects \<Rightarrow> ChatroomCharacter list \<Rightarrow> ChatroomCharacter list" where
  "set_player_Effects h effects [] = []"
| "set_player_Effects h effects (c # cs) =
     (if cref (Character c) = cref (Player h) then c\<lparr> Effects := effects \<rparr> # cs
      else c # set_player_Effects h effects cs)"

definition buildPlayerEffects :: "effectBuilder list \<Rightarrow> host \<Rightarrow> bcx \<Rightarrow> bcx" where
  "buildPlayerEffects effectBuilderFunctions h s =
     (let effects = run_builders effectBuilderFunctions defaultBCXEffects;
          (player, s1) = getPlayerCharacter h s
      in if effects = Effects player then s1
         else s1\<lparr> currentRoomCharacters := set_player_Effects h effects (currentRoomCharacters s1),
                  CharacterRefresh_calls := Suc (CharacterRefresh_calls s1),
                  announceSelf_calls := Suc (announceSelf_calls s1) \<rparr>)"

section \<open>Notions used in the statements\<close>

text \<open>
  In the words of the specification: a cached proxy stays when it is the self proxy or
  its character is in the current room.
\<close>

definition still_present :: "host \<Rightarrow> ChatroomCharacter \<Rightarrow> bool" where
  "still_present h c = (isPlayer c \<or> includes_ref (ChatRoomCharacter h) (Character c))"

text \<open>
  At most one cached proxy per member number; and a proxy that carries the member
  number of the player is a proxy of the \<open>Player\<close> object, the one that
  \<open>getPlayerCharacter\<close> looks for by reference.
\<close>

definition one_proxy_per_member :: "host \<Rightarrow> ChatroomCharacter list \<Rightarrow> bool" where
  "one_proxy_per_member h cs =
     (distinct (map (\<lambda>c. MemberNumber (Character c)) cs)
      \<and> (\<forall>c \<in> set cs. MemberNumber (Character c) = MemberNumber (Player h) \<longrightarrow>
                         cref (Character c) = cref (Player h)))"

text \<open>
  What holds of the correlator between any two of its operations: every pending entry
  has an unsettled promise of its own, which \<open>resolve\<close> and \<open>reject\<close> both settle, and a
  running timer whose callback is the one \<open>sendQuery\<close> made for it; every running timer
  belongs to a pending entry; handles in use lie below the next ones to be given out.
\<close>

definition correlator_ok :: "bcx \<Rightarrow> bool" where
  "correlator_ok s =
     ((\<forall>i info. map_of (pendingQueries s) i = Some info \<longrightarrow>
          resolve info = reject info \<and> reject info < next_promise s
          \<and> map_of (promises s) (reject info) = None
          \<and> (\<exists>delay type. map_of (timers s) (timeout info) =
                Some (delay, QueryTimeout i (target info) type (reject info))))
      \<and> (\<forall>i j info info'. map_of (pendingQueries s) i = Some info
            \<and> map_of (pendingQueries s) j = Some info' \<and> reject info = reject info' \<longrightarrow> i = j)
      \<and> (\<forall>t delay i tg type rej. map_of (timers s) t = Some (delay, QueryTimeout i tg type rej) \<longrightarrow>
            t < next_timer s
            \<and> (\<exists>info. map_of (pendingQueries s) i = Some info \<and> timeout info = t
                  \<and> reject info = rej))
      \<and> (\<forall>p outcome. map_of (promises s) p = Some outcome \<longrightarrow> p < next_promise s))"

text \<open>The answer that refuses the query \<open>qid\<close>, as \<open>ServerSend\<close> receives it.\<close>

definition refusal :: "string \<Rightarrow> ChatRoomChat" where
  "refusal qid = \<lparr> Content = ''BCXMsg'', Type = ''Hidden'', Target = None,
     Dictionary = JObj [(''type'', JStr ''queryAnswer''),
                        (''message'', JObj [(''id'', JStr qid), (''ok'', JBool False)])] \<rparr>"

text \<open>The query of \<open>setPermission\<close> to member \<open>n\<close>, as \<open>ServerSend\<close> receives it.\<close>

definition editPermission_query :: "string \<Rightarrow> string \<Rightarrow> string \<Rightarrow> jsval \<Rightarrow> int \<Rightarrow> ChatRoomChat" where
  "editPermission_query qid permission type target' n =
     \<lparr> Content = ''BCXMsg'', Type = ''Hidden'', Target = Some n,
       Dictionary = JObj [(''type'', JStr ''query''),
         (''message'', JObj [(''id'', JStr qid), (''query'', JStr ''editPermission''),
            (''data'', JObj [(''permission'', JStr permission), (''edit'', JStr type),
                            (''target'', target')])])] \<rparr>"

section \<open>A small scenario\<close>

text \<open>The module state before anything has happened.\<close>

definition bcx_init :: bcx where
  "bcx_init = \<lparr> pendingQueries = [], timers = [], next_timer = 0, promises = [], next_promise = 0,
     ServerSend = [], console = [], currentRoomCharacters = [],
     CharacterRefresh_calls = 0, announceSelf_calls = 0 \<rparr>"

definition alice :: Character where
  "alice = \<lparr> cref = 0, ID = 0, MemberNumber = Some 1, Name = ''Alice'' \<rparr>"

definition bob :: Character where
  "bob = \<lparr> cref = 1, ID = 1, MemberNumber = Some 2, Name = ''Bob'' \<rparr>"

definition carol :: Character where
  "carol = \<lparr> cref = 2, ID = 2, MemberNumber = Some 3, Name = ''Carol'' \<rparr>"

text \<open>Alice plays, in a room with Bob and Carol; only Bob may act on her.\<close>

definition room :: host where
  "room = \<lparr> Player = alice, ChatRoomCharacter = [alice, bob, carol],
     ServerPlayerIsInChatRoom = True, firstTimeInit = False,
     ServerChatRoomGetAllowItem = (\<lambda>a b. cref a = 1), VERSION = ''0.6.0'' \<rparr>"

text \<open>Alice has asked Bob for his log and waits for the answer.\<close>

definition awaiting :: bcx where
  "awaiting = snd (sendQuery ''logData'' JUndefined 2 10000 ''q1'' room bcx_init)"

definition answer_q1 :: jsval where
  "answer_q1 = JObj [(''id'', JStr ''q1''), (''ok'', JBool True),
                     (''data'', JArr [JArr [JNum 1000, JNum 2, JNum 3, JNull]])]"

definition query_q2 :: jsval where
  "query_q2 = JObj [(''id'', JStr ''q2''), (''query'', JStr ''permissionAccess''),
                    (''data'', JStr ''log_view'')]"

text \<open>The same room seen while Alice is on a screen that is not part of the chat room.\<close>

definition away :: host where
  "away = room\<lparr> ServerPlayerIsInChatRoom := False \<rparr>"

definition allow_all :: queryHandler where
  "allow_all character resolve' data s = resolve' True (JBool True) s"

text \<open>The room while the module is in its first initialisation.\<close>

definition starting :: host where
  "starting = room\<lparr> firstTimeInit := True \<rparr>"

definition hidden_message :: "int \<Rightarrow> jsval \<Rightarrow> jsval" where
  "hidden_message sender dictionary =
     JObj [(''Type'', JStr ''Hidden''), (''Content'', JStr ''BCXMsg''),
           (''Sender'', JNum sender), (''Dictionary'', dictionary)]"

definition dave :: Character where
  "dave = \<lparr> cref = 3, ID = 3, MemberNumber = Some 4, Name = ''Dave'' \<rparr>"

text \<open>Alice's registry holds herself, Bob, and Dave, who has left the room.\<close>

definition cached :: bcx where
  "cached = bcx_init\<lparr> currentRoomCharacters :=
     [constructed True alice room, constructed False bob room, constructed False dave room] \<rparr>"

text \<open>A builder that adds one marker.\<close>

definition add_blind :: effectBuilder where
  "add_blind effects = effects\<lparr> Effect := Effect effects @ [''BlindHeavy''] \<rparr>"

definition bob_proxy :: ChatroomCharacter where
  "bob_proxy = constructed False bob room"

definition alice_proxy :: ChatroomCharacter where
  "alice_proxy = constructed True alice room"

text \<open>An authority module that grants every edit.\<close>

definition granting :: authority where
  "granting = \<lparr> setPermissionSelfAccess = (\<lambda>permission b c s. (True, s)),
                 setPermissionMinAccess = (\<lambda>permission n c s. (True, s)) \<rparr>"

section \<open>The correlator: answers and timeouts\<close>

lemma map_of_delete_same: "map_of (AList.delete k xs) k = None"
  by (simp add: AList.delete_eq map_of_eq_None_iff image_iff)

lemma settle_fresh:
  "map_of (promises s) p = None \<Longrightarrow> map_of (promises (settle p outcome s)) p = Some outcome"
  by (simp add: settle_def map_add_def)

lemma settle_other_fields [simp]:
  "pendingQueries (settle p outcome s) = pendingQueries s"
  "timers (settle p outcome s) = timers s"
  "ServerSend (settle p outcome s) = ServerSend s"
  "console (settle p outcome s) = console s"
  "currentRoomCharacters (settle p outcome s) = currentRoomCharacters s"
  by (simp_all add: settle_def split: option.splits)

lemma queryAnswer_matching:
  assumes "map_of (pendingQueries s) i = Some info"
    and "isObject message"
    and "jsget message ''id'' = JStr i"
    and "jsget message ''ok'' = JBool ok"
  shows "queryAnswer_handler sender message s =
           settle (if ok then resolve info else reject info)
             (if ok then Resolved (jsget message ''data'')
              else Rejected (Reason (jsget message ''data'')))
             (s\<lparr> timers := AList.delete (timeout info) (timers s),
                  pendingQueries := AList.delete i (pendingQueries s) \<rparr>)"
  using assms by (simp add: queryAnswer_handler_def clearTimeout_def Let_def)

lemma queryAnswer_unknown:
  assumes "map_of (pendingQueries s) i = None"
    and "isObject message"
    and "jsget message ''id'' = JStr i"
    and "jsget message ''ok'' = JBool ok"
  shows "queryAnswer_handler sender message s =
           console_log Warn ''BCX: Response to unknown query'' [JNum sender, message] s"
  using assms by (simp add: queryAnswer_handler_def)

lemma sendQuery_room:
  "sendQuery ''logData'' JUndefined 2 10000 ''q1'' room bcx_init =
     (0, bcx_init\<lparr> pendingQueries := [(''q1'', \<lparr> target = 2, resolve = 0, reject = 0, timeout = 0 \<rparr>)],
          timers := [(0, 10000, QueryTimeout ''q1'' 2 ''logData'' 0)],
          next_timer := 1, next_promise := 1,
          ServerSend := [\<lparr> Content = ''BCXMsg'', Type = ''Hidden'', Target = Some 2,
             Dictionary = JObj [(''type'', JStr ''query''), (''message'',
                JObj [(''id'', JStr ''q1''), (''query'', JStr ''logData''), (''data'', JUndefined)])] \<rparr>] \<rparr>)"
  by (simp add: sendQuery_def room_def bcx_init_def sendHiddenMessage_def Let_def)

lemma awaiting_eq:
  "awaiting = bcx_init\<lparr> pendingQueries := [(''q1'', \<lparr> target = 2, resolve = 0, reject = 0, timeout = 0 \<rparr>)],
          timers := [(0, 10000, QueryTimeout ''q1'' 2 ''logData'' 0)],
          next_timer := 1, next_promise := 1,
          ServerSend := [\<lparr> Content = ''BCXMsg'', Type = ''Hidden'', Target = Some 2,
             Dictionary = JObj [(''type'', JStr ''query''), (''message'',
                JObj [(''id'', JStr ''q1''), (''query'', JStr ''logData''), (''data'', JUndefined)])] \<rparr>] \<rparr>"
  by (simp add: awaiting_def sendQuery_room)

lemma timer_fire_active:
  assumes "map_of (timers s) t = Some (delay, QueryTimeout i tg ty rej)"
  shows "timer_fire t s =
           settle rej (Rejected (Reason (JStr ''Timed out'')))
             (s\<lparr> timers := AList.delete t (timers s),
                  console := console s @ [(Warn, ''BCX: Query timed out'', [JNum tg, JStr ty])],
                  pendingQueries := AList.delete i (pendingQueries s) \<rparr>)"
  using assms by (simp add: timer_fire_def console_log_def)

lemma map_of_snoc:
  "map_of xs k = None \<Longrightarrow> map_of (xs @ [(k, v)]) = (map_of xs)(k \<mapsto> v)"
  by (rule ext) (simp add: map_add_def split: option.splits)

lemma map_of_settle:
  "map_of (promises (settle p outcome s)) =
     (if map_of (promises s) p = None then (map_of (promises s))(p \<mapsto> outcome)
      else map_of (promises s))"
  by (auto simp add: settle_def map_of_snoc simp del: map_of_append split: option.splits)

lemma settle_counters [simp]:
  "next_promise (settle p outcome s) = next_promise s"
  "next_timer (settle p outcome s) = next_timer s"
  by (simp_all add: settle_def split: option.splits)

lemma correlator_ok_init: "correlator_ok bcx_init"
  by (simp add: correlator_ok_def bcx_init_def)

lemma timer_fresh:
  assumes "correlator_ok s" shows "map_of (timers s) (next_timer s) = None"
proof (cases "map_of (timers s) (next_timer s)")
  case (Some x)
  obtain delay cb where x: "x = (delay, cb)" by (cases x)
  obtain i tg ty rej where "cb = QueryTimeout i tg ty rej" by (cases cb)
  with Some x assms have "next_timer s < next_timer s"
    unfolding correlator_ok_def by blast
  then show ?thesis by simp
qed simp

lemma promise_fresh:
  assumes "correlator_ok s" shows "map_of (promises s) (next_promise s) = None"
proof (cases "map_of (promises s) (next_promise s)")
  case (Some outcome)
  with assms have "next_promise s < next_promise s"
    unfolding correlator_ok_def by blast
  then show ?thesis by simp
qed simp

lemma ok_pending:
  "correlator_ok s \<Longrightarrow> map_of (pendingQueries s) i = Some info \<Longrightarrow>
     resolve info = reject info \<and> reject info < next_promise s
     \<and> map_of (promises s) (reject info) = None
     \<and> (\<exists>delay type. map_of (timers s) (timeout info) =
            Some (delay, QueryTimeout i (target info) type (reject info)))"
  unfolding correlator_ok_def by blast

lemma ok_unique:
  "correlator_ok s \<Longrightarrow> map_of (pendingQueries s) i = Some info \<Longrightarrow>
     map_of (pendingQueries s) j = Some info' \<Longrightarrow> reject info = reject info' \<Longrightarrow> i = j"
  unfolding correlator_ok_def by blast

lemma ok_timer:
  "correlator_ok s \<Longrightarrow> map_of (timers s) t = Some (delay, QueryTimeout i tg type rej) \<Longrightarrow>
     t < next_timer s
     \<and> (\<exists>info. map_of (pendingQueries s) i = Some info \<and> timeout info = t \<and> reject info = rej)"
  unfolding correlator_ok_def by blast

lemma ok_promise:
  "correlator_ok s \<Longrightarrow> map_of (promises s) p = Some outcome \<Longrightarrow> p < next_promise s"
  unfolding correlator_ok_def by blast

lemma correlator_okI:
  assumes "\<And>i info. map_of (pendingQueries s) i = Some info \<Longrightarrow>
          resolve info = reject info \<and> reject info < next_promise s
          \<and> map_of (promises s) (reject info) = None
          \<and> (\<exists>delay type. map_of (timers s) (timeout info) =
                Some (delay, QueryTimeout i (target info) type (reject info)))"
    and "\<And>i j info info'. map_of (pendingQueries s) i = Some info \<Longrightarrow>
            map_of (pendingQueries s) j = Some info' \<Longrightarrow> reject info = reject info' \<Longrightarrow> i = j"
    and "\<And>t delay i tg type rej. map_of (timers s) t = Some (delay, QueryTimeout i tg type rej) \<Longrightarrow>
            t < next_timer s
            \<and> (\<exists>info. map_of (pendingQueries s) i = Some info \<and> timeout info = t
                  \<and> reject info = rej)"
    and "\<And>p outcome. map_of (promises s) p = Some outcome \<Longrightarrow> p < next_promise s"
  shows "correlator_ok s"
  unfolding correlator_ok_def using assms by blast

lemma sendQuery_keeps_ok:
  assumes ok: "correlator_ok s" and fresh: "map_of (pendingQueries s) qid = None"
  shows "correlator_ok (snd (sendQuery type data n delay qid h s))"
proof (cases "firstTimeInit h")
  case True
  let ?p = "next_promise s"
  let ?s' = "snd (sendQuery type data n delay qid h s)"
  have p: "map_of (promises s) ?p = None" by (rule promise_fresh [OF ok])
  have fields: "pendingQueries ?s' = pendingQueries s"
    "timers ?s' = timers s"
    "map_of (promises ?s') =
       (map_of (promises s))(?p \<mapsto> Rejected (Reason (JStr ''Unavailable during init'')))"
    "next_promise ?s' = Suc ?p"
    "next_timer ?s' = next_timer s"
    using True p by (simp_all add: sendQuery_def Let_def map_of_settle)
  show ?thesis
  proof (rule correlator_okI)
    fix i info assume "map_of (pendingQueries ?s') i = Some info"
    then have i: "map_of (pendingQueries s) i = Some info" by (simp add: fields)
    from ok_pending [OF ok i]
    show "resolve info = reject info \<and> reject info < next_promise ?s'
        \<and> map_of (promises ?s') (reject info) = None
        \<and> (\<exists>delay type. map_of (timers ?s') (timeout info) =
              Some (delay, QueryTimeout i (target info) type (reject info)))"
      unfolding fields by auto
  next
    fix i j info info'
    assume "map_of (pendingQueries ?s') i = Some info" "map_of (pendingQueries ?s') j = Some info'"
      "reject info = reject info'"
    then show "i = j" using ok_unique [OF ok, of i info j info'] by (simp add: fields)
  next
    fix t delay i tg type rej
    assume "map_of (timers ?s') t = Some (delay, QueryTimeout i tg type rej)"
    then have t: "map_of (timers s) t = Some (delay, QueryTimeout i tg type rej)"
      by (simp add: fields)
    from ok_timer [OF ok t] show "t < next_timer ?s'
      \<and> (\<exists>info. map_of (pendingQueries ?s') i = Some info \<and> timeout info = t \<and> reject info = rej)"
      by (simp add: fields)
  next
    fix q outcome
    assume "map_of (promises ?s') q = Some outcome"
    then show "q < next_promise ?s'"
      unfolding fields using ok_promise [OF ok, of q] by (cases "q = ?p") auto
  qed
next
  case False
  let ?p = "next_promise s" and ?t = "next_timer s"
  let ?s' = "snd (sendQuery type data n delay qid h s)"
  let ?info = "\<lparr> target = n, resolve = ?p, reject = ?p, timeout = ?t \<rparr>"
  have p: "map_of (promises s) ?p = None" by (rule promise_fresh [OF ok])
  have t: "map_of (timers s) ?t = None" by (rule timer_fresh [OF ok])
  have fields: "map_of (pendingQueries ?s') = (map_of (pendingQueries s))(qid \<mapsto> ?info)"
    "map_of (timers ?s') = (map_of (timers s))(?t \<mapsto> (delay, QueryTimeout qid n type ?p))"
    "promises ?s' = promises s"
    "next_promise ?s' = Suc ?p"
    "next_timer ?s' = Suc ?t"
    using False t
    by (simp_all add: sendQuery_def Let_def sendHiddenMessage_def update_conv' map_of_snoc
        del: map_of_append)
  have old: "reject info < ?p \<and> timeout info < ?t \<and> i \<noteq> qid"
    if i: "map_of (pendingQueries s) i = Some info" for i info
  proof -
    from ok_pending [OF ok i] obtain d ty where
      "reject info < ?p" "map_of (timers s) (timeout info) =
          Some (d, QueryTimeout i (target info) ty (reject info))"
      by blast
    moreover from this ok_timer [OF ok] have "timeout info < ?t" by blast
    moreover from i fresh have "i \<noteq> qid" by auto
    ultimately show ?thesis by simp
  qed
  show ?thesis
  proof (rule correlator_okI)
    fix i info
    assume "map_of (pendingQueries ?s') i = Some info"
    then have a: "((map_of (pendingQueries s))(qid \<mapsto> ?info)) i = Some info"
      by (simp add: fields)
    show "resolve info = reject info \<and> reject info < next_promise ?s'
          \<and> map_of (promises ?s') (reject info) = None
          \<and> (\<exists>delay' type'. map_of (timers ?s') (timeout info) =
                Some (delay', QueryTimeout i (target info) type' (reject info)))"
    proof (cases "i = qid")
      case True
      with a have "info = ?info" by simp
      then show ?thesis unfolding fields using True p by simp
    next
      case False
      with a have i: "map_of (pendingQueries s) i = Some info" by simp
      from old [OF i] have "timeout info \<noteq> ?t" by simp
      moreover note ok_pending [OF ok i]
      ultimately show ?thesis unfolding fields by (simp add: less_Suc_eq)
    qed
  next
    fix i j info info'
    assume "map_of (pendingQueries ?s') i = Some info" "map_of (pendingQueries ?s') j = Some info'"
      and r: "reject info = reject info'"
    then have a: "((map_of (pendingQueries s))(qid \<mapsto> ?info)) i = Some info"
      "((map_of (pendingQueries s))(qid \<mapsto> ?info)) j = Some info'"
      by (simp_all add: fields)
    show "i = j"
    proof (cases "i = qid"; cases "j = qid")
      assume "i = qid" "j = qid" then show ?thesis by simp
    next
      assume i: "i = qid" and j: "j \<noteq> qid"
      with a have "reject info = ?p" "map_of (pendingQueries s) j = Some info'" by auto
      with old [of j info'] r show ?thesis by simp
    next
      assume i: "i \<noteq> qid" and j: "j = qid"
      with a have "reject info' = ?p" "map_of (pendingQueries s) i = Some info" by auto
      with old [of i info] r show ?thesis by simp
    next
      assume "i \<noteq> qid" "j \<noteq> qid"
      with a r ok_unique [OF ok, of i info j info'] show ?thesis by simp
    qed
  next
    fix t' delay' i tg type' rej
    assume "map_of (timers ?s') t' = Some (delay', QueryTimeout i tg type' rej)"
    then have a: "((map_of (timers s))(?t \<mapsto> (delay, QueryTimeout qid n type ?p))) t' =
        Some (delay', QueryTimeout i tg type' rej)"
      by (simp add: fields)
    show "t' < next_timer ?s'
        \<and> (\<exists>info. map_of (pendingQueries ?s') i = Some info
             \<and> timeout info = t' \<and> reject info = rej)"
    proof (cases "t' = ?t")
      case True
      with a show ?thesis unfolding fields by simp
    next
      case False
      with a have t': "map_of (timers s) t' = Some (delay', QueryTimeout i tg type' rej)" by simp
      from ok_timer [OF ok this] obtain info where info: "map_of (pendingQueries s) i = Some info"
        "timeout info = t'" "reject info = rej" and "t' < ?t"
        by blast
      with old [of i info] show ?thesis unfolding fields by simp
    qed
  next
    fix q outcome
    assume "map_of (promises ?s') q = Some outcome"
    then have "map_of (promises s) q = Some outcome" by (simp add: fields)
    from ok_promise [OF ok this] show "q < next_promise ?s'" by (simp add: fields)
  qed
qed

lemma finish_keeps_ok:
  assumes ok: "correlator_ok s" and i: "map_of (pendingQueries s) i = Some info"
    and fields: "map_of (pendingQueries s') = (map_of (pendingQueries s))(i := None)"
      "map_of (timers s') = (map_of (timers s))(timeout info := None)"
      "map_of (promises s') = (map_of (promises s))(reject info \<mapsto> outcome)"
      "next_promise s' = next_promise s" "next_timer s' = next_timer s"
  shows "correlator_ok s'"
proof (rule correlator_okI)
  fix j info'
  assume "map_of (pendingQueries s') j = Some info'"
  then have j: "j \<noteq> i" "map_of (pendingQueries s) j = Some info'"
    by (auto simp add: fields split: if_splits)
  from ok_unique [OF ok j(2) i] j(1) have p: "reject info' \<noteq> reject info" by auto
  from ok_pending [OF ok j(2)] obtain d ty where
    tj: "map_of (timers s) (timeout info') = Some (d, QueryTimeout j (target info') ty (reject info'))"
    by blast
  from ok_pending [OF ok i] obtain d' ty' where
    ti: "map_of (timers s) (timeout info) = Some (d', QueryTimeout i (target info) ty' (reject info))"
    by blast
  from tj ti j(1) have t: "timeout info' \<noteq> timeout info" by auto
  from ok_pending [OF ok j(2)] p t
  show "resolve info' = reject info' \<and> reject info' < next_promise s'
        \<and> map_of (promises s') (reject info') = None
        \<and> (\<exists>delay type. map_of (timers s') (timeout info') =
              Some (delay, QueryTimeout j (target info') type (reject info')))"
    by (simp add: fields)
next
  fix j k info' info''
  assume "map_of (pendingQueries s') j = Some info'" "map_of (pendingQueries s') k = Some info''"
    "reject info' = reject info''"
  then show "j = k"
    using ok_unique [OF ok, of j info' k info''] by (simp add: fields split: if_splits)
next
  fix t delay j tg type rej
  assume "map_of (timers s') t = Some (delay, QueryTimeout j tg type rej)"
  then have t: "t \<noteq> timeout info" "map_of (timers s) t = Some (delay, QueryTimeout j tg type rej)"
    by (auto simp add: fields split: if_splits)
  from ok_timer [OF ok t(2)] obtain info' where
    j: "t < next_timer s" "map_of (pendingQueries s) j = Some info'" "timeout info' = t"
      "reject info' = rej"
    by blast
  from j(2,3) i t(1) have "j \<noteq> i" by auto
  with j show "t < next_timer s'
      \<and> (\<exists>info. map_of (pendingQueries s') j = Some info \<and> timeout info = t \<and> reject info = rej)"
    by (simp add: fields)
next
  fix p outcome'
  assume "map_of (promises s') p = Some outcome'"
  then show "p < next_promise s'"
    using ok_promise [OF ok, of p] ok_pending [OF ok i]
    by (cases "p = reject info") (auto simp add: fields)
qed

lemma timer_fire_keeps_ok:
  assumes ok: "correlator_ok s"
  shows "correlator_ok (timer_fire t s)"
proof (cases "map_of (timers s) t")
  case None
  then show ?thesis using ok by (simp add: timer_fire_def)
next
  case (Some x)
  obtain delay cb where x: "x = (delay, cb)" by (cases x)
  obtain i tg ty rej where cb: "cb = QueryTimeout i tg ty rej" by (cases cb)
  from Some x cb have t: "map_of (timers s) t = Some (delay, QueryTimeout i tg ty rej)" by simp
  from ok_timer [OF ok t] obtain info where
    i: "map_of (pendingQueries s) i = Some info" "timeout info = t" "reject info = rej"
    by blast
  from ok_pending [OF ok i(1)] i(3) have p: "map_of (promises s) rej = None" by simp
  show ?thesis
    by (rule finish_keeps_ok [OF ok i(1), where outcome = "Rejected (Reason (JStr ''Timed out''))"])
       (simp_all add: timer_fire_active [OF t] i map_of_settle p delete_conv')
qed

lemma queryAnswer_keeps_ok:
  assumes ok: "correlator_ok s"
  shows "correlator_ok (queryAnswer_handler sender message s)"
proof (cases "isObject message \<and> typeof (jsget message ''id'') = TString
    \<and> typeof (jsget message ''ok'') = TBoolean")
  case False
  then have "queryAnswer_handler sender message s =
      console_log Warn ''BCX: Invalid queryAnswer'' [JNum sender, message] s"
    by (auto simp add: queryAnswer_handler_def)
  then show ?thesis using ok by (simp add: correlator_ok_def console_log_def)
next
  case True
  then obtain i b where m: "isObject message" "jsget message ''id'' = JStr i"
    "jsget message ''ok'' = JBool b"
    by (cases "jsget message ''id''"; cases "jsget message ''ok''") simp_all
  show ?thesis
  proof (cases "map_of (pendingQueries s) i")
    case None
    from queryAnswer_unknown [OF None m] ok show ?thesis
      by (simp add: correlator_ok_def console_log_def)
  next
    case (Some info)
    from ok_pending [OF ok Some] have p: "resolve info = reject info"
      "map_of (promises s) (reject info) = None" by simp_all
    show ?thesis
      by (rule finish_keeps_ok [OF ok Some, where outcome =
            "if b then Resolved (jsget message ''data'')
             else Rejected (Reason (jsget message ''data''))"])
         (simp_all add: queryAnswer_matching [OF Some m] p map_of_settle delete_conv')
  qed
qed

lemma sendQuery_registers:
  assumes "\<not> firstTimeInit h"
  shows "map_of (pendingQueries (snd (sendQuery type data n delay qid h s))) qid =
           Some \<lparr> target = n, resolve = fst (sendQuery type data n delay qid h s),
                  reject = fst (sendQuery type data n delay qid h s), timeout = next_timer s \<rparr>"
  using assms by (simp add: sendQuery_def Let_def sendHiddenMessage_def update_conv')

lemma correlator_ok_awaiting: "correlator_ok awaiting"
  unfolding awaiting_def
  by (rule sendQuery_keeps_ok [OF correlator_ok_init]) (simp add: bcx_init_def)

text \<open>
  C1. In a state of the correlator as its operations leave it, an answer
  \<open>{id: i, ok, data}\<close> that arrives while the entry \<open>i\<close> is pending clears the timer of
  the entry, removes the entry and settles the promise of the caller, which was not
  settled before: it is resolved with exactly \<open>data\<close> when \<open>ok\<close> is true, and rejected
  with \<open>data\<close> (possibly \<open>undefined\<close>) when \<open>ok\<close> is false. The cleared timer no
  longer fires.
\<close>

theorem queryAnswer_settles_pending:
  assumes "correlator_ok s"
    and "map_of (pendingQueries s) i = Some info"
    and "isObject message"
    and "jsget message ''id'' = JStr i"
    and "jsget message ''ok'' = JBool ok"
  shows "queryAnswer_handler sender message s =
           settle (if ok then resolve info else reject info)
             (if ok then Resolved (jsget message ''data'')
              else Rejected (Reason (jsget message ''data'')))
             (s\<lparr> timers := AList.delete (timeout info) (timers s),
                  pendingQueries := AList.delete i (pendingQueries s) \<rparr>)
       \<and> map_of (timers (queryAnswer_handler sender message s)) (timeout info) = None
       \<and> map_of (pendingQueries (queryAnswer_handler sender message s)) i = None
       \<and> map_of (promises s) (if ok then resolve info else reject info) = None
       \<and> map_of (promises (queryAnswer_handler sender message s))
            (if ok then resolve info else reject info) =
          Some (if ok then Resolved (jsget message ''data'')
                else Rejected (Reason (jsget message ''data'')))
       \<and> timer_fire (timeout info) (queryAnswer_handler sender message s) =
           queryAnswer_handler sender message s
       \<and> correlator_ok (queryAnswer_handler sender message s)"
proof -
  note eq = queryAnswer_matching [OF assms(2-5)]
  from ok_pending [OF assms(1,2)]
  have p: "map_of (promises s) (if ok then resolve info else reject info) = None"
    by simp
  have after: "map_of (timers (queryAnswer_handler sender message s)) (timeout info) = None
       \<and> map_of (pendingQueries (queryAnswer_handler sender message s)) i = None
       \<and> map_of (promises (queryAnswer_handler sender message s))
            (if ok then resolve info else reject info) =
          Some (if ok then Resolved (jsget message ''data'')
                else Rejected (Reason (jsget message ''data'')))"
    unfolding eq using p by (simp add: settle_fresh map_of_delete_same)
  then have cleared: "timer_fire (timeout info) (queryAnswer_handler sender message s) =
      queryAnswer_handler sender message s"
    by (simp add: timer_fire_def)
  from eq p after cleared queryAnswer_keeps_ok [OF assms(1)] show ?thesis by blast
qed

theorem queryAnswer_settles_pending_witness:
  "correlator_ok awaiting
   \<and> map_of (pendingQueries awaiting) ''q1'' = Some \<lparr> target = 2, resolve = 0, reject = 0, timeout = 0 \<rparr>
   \<and> isObject answer_q1 \<and> jsget answer_q1 ''id'' = JStr ''q1'' \<and> jsget answer_q1 ''ok'' = JBool True
   \<and> map_of (timers (queryAnswer_handler 2 answer_q1 awaiting)) 0 = None
   \<and> map_of (pendingQueries (queryAnswer_handler 2 answer_q1 awaiting)) ''q1'' = None
   \<and> map_of (promises (queryAnswer_handler 2 answer_q1 awaiting)) 0 =
        Some (Resolved (JArr [JArr [JNum 1000, JNum 2, JNum 3, JNull]]))"
proof -
  have p: "map_of (pendingQueries awaiting) ''q1'' =
      Some \<lparr> target = 2, resolve = 0, reject = 0, timeout = 0 \<rparr>"
    by (simp add: awaiting_eq bcx_init_def)
  have m: "isObject answer_q1" "jsget answer_q1 ''id'' = JStr ''q1''"
    "jsget answer_q1 ''ok'' = JBool True"
    "jsget answer_q1 ''data'' = JArr [JArr [JNum 1000, JNum 2, JNum 3, JNull]]"
    by (simp_all add: answer_q1_def)
  note answered = queryAnswer_settles_pending [OF correlator_ok_awaiting p m(1-3), of 2,
      simplified, unfolded m(4)]
  from answered correlator_ok_awaiting p m show ?thesis by blast
qed

text \<open>
  C2. In a state of the correlator as its operations leave it, a pending query has its
  timer running. When that timer fires, no answer having come, the entry is removed and
  the promise is rejected with \<open>"Timed out"\<close>. An answer for an id with no pending entry
  is only logged: the state is otherwise unchanged, and the handler has no way to fail.
  So an answer that comes after the timeout leaves the promise as the timeout settled it.
\<close>

theorem timeout_rejects_then_late_answer_dropped:
  assumes "correlator_ok s"
    and "map_of (pendingQueries s) i = Some info"
    and "isObject message"
    and "jsget message ''id'' = JStr i"
    and "jsget message ''ok'' = JBool ok"
  shows "(\<exists>delay type. map_of (timers s) (timeout info) =
            Some (delay, QueryTimeout i (target info) type (reject info)))
       \<and> map_of (pendingQueries (timer_fire (timeout info) s)) i = None
       \<and> map_of (promises (timer_fire (timeout info) s)) (reject info) =
            Some (Rejected (Reason (JStr ''Timed out'')))
       \<and> correlator_ok (timer_fire (timeout info) s)
       \<and> queryAnswer_handler sender message (timer_fire (timeout info) s) =
            console_log Warn ''BCX: Response to unknown query'' [JNum sender, message]
              (timer_fire (timeout info) s)
       \<and> promises (queryAnswer_handler sender message (timer_fire (timeout info) s)) =
            promises (timer_fire (timeout info) s)
       \<and> (\<forall>s'. map_of (pendingQueries s') i = None \<longrightarrow>
            queryAnswer_handler sender message s' =
              console_log Warn ''BCX: Response to unknown query'' [JNum sender, message] s')"
proof -
  let ?s' = "timer_fire (timeout info) s"
  from ok_pending [OF assms(1,2)] obtain delay type where
    running: "map_of (timers s) (timeout info) =
      Some (delay, QueryTimeout i (target info) type (reject info))"
    and unsettled: "map_of (promises s) (reject info) = None"
    by blast
  have gone: "map_of (pendingQueries ?s') i = None"
    by (simp add: timer_fire_active [OF running] map_of_delete_same)
  have rejected: "map_of (promises ?s') (reject info) = Some (Rejected (Reason (JStr ''Timed out'')))"
    unfolding timer_fire_active [OF running] using unsettled by (simp add: settle_fresh)
  have late: "queryAnswer_handler sender message ?s' =
      console_log Warn ''BCX: Response to unknown query'' [JNum sender, message] ?s'"
    by (rule queryAnswer_unknown [OF gone assms(3-5)])
  have same: "promises (queryAnswer_handler sender message ?s') = promises ?s'"
    unfolding late by (simp add: console_log_def)
  have any: "\<forall>s'. map_of (pendingQueries s') i = None \<longrightarrow>
      queryAnswer_handler sender message s' =
        console_log Warn ''BCX: Response to unknown query'' [JNum sender, message] s'"
    using queryAnswer_unknown [OF _ assms(3-5)] by blast
  from running gone rejected timer_fire_keeps_ok [OF assms(1), of "timeout info"] late same any
  show ?thesis by blast
qed

theorem timeout_rejects_then_late_answer_dropped_witness:
  "correlator_ok awaiting
   \<and> map_of (pendingQueries awaiting) ''q1'' = Some \<lparr> target = 2, resolve = 0, reject = 0, timeout = 0 \<rparr>
   \<and> map_of (timers awaiting) 0 = Some (10000, QueryTimeout ''q1'' 2 ''logData'' 0)
   \<and> pendingQueries (timer_fire 0 awaiting) = []
   \<and> promises (timer_fire 0 awaiting) = [(0, Rejected (Reason (JStr ''Timed out'')))]
   \<and> promises (queryAnswer_handler 2 answer_q1 (timer_fire 0 awaiting)) =
        [(0, Rejected (Reason (JStr ''Timed out'')))]
   \<and> console (queryAnswer_handler 2 answer_q1 (timer_fire 0 awaiting)) =
        [(Warn, ''BCX: Query timed out'', [JNum 2, JStr ''logData'']),
         (Warn, ''BCX: Response to unknown query'', [JNum 2, answer_q1])]"
proof -
  have p: "map_of (pendingQueries awaiting) ''q1'' =
      Some \<lparr> target = 2, resolve = 0, reject = 0, timeout = 0 \<rparr>"
    by (simp add: awaiting_eq bcx_init_def)
  have m: "isObject answer_q1" "jsget answer_q1 ''id'' = JStr ''q1''"
    "jsget answer_q1 ''ok'' = JBool True"
    by (simp_all add: answer_q1_def)
  have fired: "timer_fire 0 awaiting =
      awaiting\<lparr> timers := [], pendingQueries := [],
        console := [(Warn, ''BCX: Query timed out'', [JNum 2, JStr ''logData''])],
        promises := [(0, Rejected (Reason (JStr ''Timed out'')))] \<rparr>"
    by (simp add: awaiting_eq bcx_init_def timer_fire_def settle_def console_log_def)
  from timeout_rejects_then_late_answer_dropped [OF correlator_ok_awaiting p m, of 2]
  have "queryAnswer_handler 2 answer_q1 (timer_fire 0 awaiting) =
            console_log Warn ''BCX: Response to unknown query'' [JNum 2, answer_q1]
              (timer_fire 0 awaiting)"
    by simp
  then have late: "promises (queryAnswer_handler 2 answer_q1 (timer_fire 0 awaiting)) =
        [(0, Rejected (Reason (JStr ''Timed out'')))]"
    "console (queryAnswer_handler 2 answer_q1 (timer_fire 0 awaiting)) =
        [(Warn, ''BCX: Query timed out'', [JNum 2, JStr ''logData'']),
         (Warn, ''BCX: Response to unknown query'', [JNum 2, answer_q1])]"
    by (simp_all add: fired console_log_def)
  have t: "map_of (timers awaiting) 0 = Some (10000, QueryTimeout ''q1'' 2 ''logData'' 0)"
    by (simp add: awaiting_eq bcx_init_def)
  from correlator_ok_awaiting p t late show ?thesis by (simp add: fired)
qed

text \<open>
  C4. The guard on the origin of an answer compares \<open>info.target\<close>, a member number,
  with itself and never fires: an answer whose id is pending is processed in the same way
  whoever sent it, it settles the promise, and no warning is logged.
\<close>

theorem answer_accepted_from_any_sender:
  assumes "map_of (pendingQueries s) i = Some info"
    and "isObject message"
    and "jsget message ''id'' = JStr i"
    and "jsget message ''ok'' = JBool ok"
  shows "queryAnswer_handler sender message s = queryAnswer_handler (target info) message s
       \<and> queryAnswer_handler sender message s =
           settle (if ok then resolve info else reject info)
             (if ok then Resolved (jsget message ''data'')
              else Rejected (Reason (jsget message ''data'')))
             (s\<lparr> timers := AList.delete (timeout info) (timers s),
                  pendingQueries := AList.delete i (pendingQueries s) \<rparr>)
       \<and> console (queryAnswer_handler sender message s) = console s"
  by (simp add: queryAnswer_matching [OF assms])

theorem answer_accepted_from_any_sender_witness:
  "map_of (pendingQueries awaiting) ''q1'' = Some \<lparr> target = 2, resolve = 0, reject = 0, timeout = 0 \<rparr>
   \<and> isObject answer_q1 \<and> jsget answer_q1 ''id'' = JStr ''q1'' \<and> jsget answer_q1 ''ok'' = JBool True
   \<and> queryAnswer_handler 3 answer_q1 awaiting = queryAnswer_handler 2 answer_q1 awaiting
   \<and> promises (queryAnswer_handler 3 answer_q1 awaiting) =
        [(0, Resolved (JArr [JArr [JNum 1000, JNum 2, JNum 3, JNull]]))]
   \<and> console (queryAnswer_handler 3 answer_q1 awaiting) = []"
  using answer_accepted_from_any_sender
    [of awaiting "''q1''" "\<lparr> target = 2, resolve = 0, reject = 0, timeout = 0 \<rparr>" answer_q1 True 3]
  by (simp add: awaiting_eq answer_q1_def bcx_init_def settle_def queryAnswer_handler_def
      clearTimeout_def)

section \<open>Answering queries\<close>

lemma getChatroomCharacter_ServerSend:
  "ServerSend (snd (getChatroomCharacter n h s)) = ServerSend s"
  by (simp add: getChatroomCharacter_def cleanOldCharacters_def new_ChatroomCharacter_def
      console_log_def Let_def split: option.splits)

lemma sendHiddenMessage_ServerSend:
  "sendHiddenMessage type message tgt h s =
     s\<lparr> ServerSend := ServerSend s @
          (if ServerPlayerIsInChatRoom h \<and> \<not> firstTimeInit h
           then [\<lparr> Content = ''BCXMsg'', Type = ''Hidden'', Target = tgt,
                   Dictionary = JObj [(''type'', JStr type), (''message'', message)] \<rparr>]
           else []) \<rparr>"
  by (simp add: sendHiddenMessage_def)

lemma query_refused:
  assumes "isObject message" and "jsget message ''id'' = JStr qid"
    and "jsget message ''query'' = JStr query"
    and "getChatroomCharacter sender h s = (found, s1)"
    and "access_denied h found"
  shows "query_handler queryHandlers h sender message s =
           Inr (s1\<lparr> ServerSend := ServerSend s @
                    (if ServerPlayerIsInChatRoom h \<and> \<not> firstTimeInit h then [refusal qid] else []) \<rparr>)"
proof -
  have "ServerSend s1 = ServerSend s"
    using getChatroomCharacter_ServerSend [of sender h s] assms(4) by simp
  then show ?thesis
    using assms
    by (auto simp add: query_handler_def sendHiddenMessage_ServerSend refusal_def
        access_denied_def split: option.splits)
qed

lemma query_no_handler:
  assumes "isObject message" and "jsget message ''id'' = JStr qid"
    and "jsget message ''query'' = JStr query"
    and "getChatroomCharacter sender h s = (Some c, s1)"
    and "hasAccessToPlayer h c"
    and "queryHandlers_get queryHandlers query = Missing"
  shows "query_handler queryHandlers h sender message s =
           Inr (s1\<lparr> ServerSend := ServerSend s @
                    (if ServerPlayerIsInChatRoom h \<and> \<not> firstTimeInit h then [refusal qid] else []),
                    console := console s1 @ [(Warn, ''BCX: Query no handler'', [JNum sender, message])] \<rparr>)"
proof -
  have "ServerSend s1 = ServerSend s"
    using getChatroomCharacter_ServerSend [of sender h s] assms(4) by simp
  then show ?thesis
    using assms
    by (simp add: query_handler_def sendHiddenMessage_ServerSend refusal_def console_log_def)
qed

lemma query_handled:
  assumes "isObject message" and "jsget message ''id'' = JStr qid"
    and "jsget message ''query'' = JStr query"
    and "getChatroomCharacter sender h s = (Some c, s1)"
    and "hasAccessToPlayer h c"
    and "queryHandlers_get queryHandlers query = Own handler"
  shows "query_handler queryHandlers h sender message s =
           Inr (handler c (replyFn qid sender h) (jsget message ''data'') s1)"
  using assms by (simp add: query_handler_def)

lemma query_inherited:
  assumes "isObject message" and "jsget message ''id'' = JStr qid"
    and "jsget message ''query'' = JStr query"
    and "getChatroomCharacter sender h s = (Some c, s1)"
    and "hasAccessToPlayer h c"
  shows "queryHandlers_get queryHandlers query = InheritedFunction k \<Longrightarrow>
           query_handler queryHandlers h sender message s = call_inherited k s1"
    and "queryHandlers_get queryHandlers query = InheritedObject \<Longrightarrow>
           query_handler queryHandlers h sender message s = Inl TypeError"
  using assms by (simp_all add: query_handler_def)

text \<open>
  A tag that names an inherited member of the table is not a missing handler: for
  \<open>toString\<close> the query of a sender with access is left without any answer, for
  \<open>__proto__\<close> the call of the handler throws.
\<close>

lemma inherited_tag_examples:
  "queryHandlers_get Map.empty ''toString'' = InheritedFunction ''toString''"
  "call_inherited ''toString'' s = Inr s"
  "queryHandlers_get Map.empty ''__proto__'' = InheritedObject"
  "queryHandlers_get Map.empty ''logData'' = Missing"
  by (simp_all add: queryHandlers_get_def Object_prototype_functions_def call_inherited_def)

lemma getChatroomCharacter_carol:
  "getChatroomCharacter 3 h0 bcx_init =
     (if ChatRoomCharacter h0 = [alice, bob, carol] \<and> Player h0 = alice then
       (Some \<lparr> isPlayer = False, BCXVersion = None, Character = carol,
               Effects = defaultBCXEffects, typingIndicatorEnable = True \<rparr>,
        bcx_init\<lparr> currentRoomCharacters :=
             [\<lparr> isPlayer = False, BCXVersion = None, Character = carol,
                Effects = defaultBCXEffects, typingIndicatorEnable = True \<rparr>],
           console := [(Debug, ''BCX: Loaded character'', [JStr ''Carol'', JNum 3])] \<rparr>)
      else getChatroomCharacter 3 h0 bcx_init)"
  by (simp add: getChatroomCharacter_def cleanOldCharacters_def new_ChatroomCharacter_def
      constructed_def console_log_def bcx_init_def alice_def bob_def carol_def)

text \<open>
  C3, as stated, fails where \<open>sendHiddenMessage\<close> does not send: Carol, who fails the
  access check, sends a well-formed query while Alice is not on a chat room screen, and
  nothing is sent back.
\<close>

theorem refused_query_counterexample:
  "isObject query_q2 \<and> typeof (jsget query_q2 ''id'') = TString
   \<and> typeof (jsget query_q2 ''query'') = TString
   \<and> access_denied away (fst (getChatroomCharacter 3 away bcx_init))
   \<and> map_sum (\<lambda>e. e) ServerSend (query_handler Map.empty away 3 query_q2 bcx_init) = Inr []"
proof -
  obtain found s1 where g: "getChatroomCharacter 3 away bcx_init = (found, s1)"
    and found: "found = Some \<lparr> isPlayer = False, BCXVersion = None, Character = carol,
               Effects = defaultBCXEffects, typingIndicatorEnable = True \<rparr>"
    by (subst (asm) getChatroomCharacter_carol) (simp add: away_def room_def)
  have a: "access_denied away found"
    by (simp add: found access_denied_def hasAccessToPlayer_def away_def room_def carol_def)
  have q: "isObject query_q2" "jsget query_q2 ''id'' = JStr ''q2''"
    "jsget query_q2 ''query'' = JStr ''permissionAccess''"
    by (simp_all add: query_q2_def)
  have "ServerSend bcx_init = []" by (simp add: bcx_init_def)
  moreover have "\<not> ServerPlayerIsInChatRoom away" by (simp add: away_def)
  ultimately have "map_sum (\<lambda>e. e) ServerSend (query_handler Map.empty away 3 query_q2 bcx_init) = Inr []"
    by (simp add: query_refused [OF q g a])
  then show ?thesis using q g a by simp
qed

text \<open>
  C3 (amended). A well-formed query whose sender fails the access check, or passes it
  while the table of query handlers yields nothing for the tag, is answered at once with
  \<open>{id, ok: false}\<close> when the client is in a chat room and past its first
  initialisation; otherwise \<open>sendHiddenMessage\<close> sends nothing. Either way no query
  handler is called: the state is that left by the lookup of the sender, with the answer
  and, for a missing handler, one warning.
\<close>

theorem refused_query_answered_in_room:
  assumes "isObject message" and "jsget message ''id'' = JStr qid"
    and "jsget message ''query'' = JStr query"
    and "getChatroomCharacter sender h s = (found, s1)"
    and "access_denied h found \<or> queryHandlers_get queryHandlers query = Missing"
  shows "query_handler queryHandlers h sender message s =
           Inr (s1\<lparr> ServerSend := ServerSend s @
                    (if ServerPlayerIsInChatRoom h \<and> \<not> firstTimeInit h
                     then [\<lparr> Content = ''BCXMsg'', Type = ''Hidden'', Target = None,
                             Dictionary = JObj [(''type'', JStr ''queryAnswer''),
                               (''message'', JObj [(''id'', JStr qid), (''ok'', JBool False)])] \<rparr>]
                     else []),
                    console := console s1 @
                    (if access_denied h found then []
                     else [(Warn, ''BCX: Query no handler'', [JNum sender, message])]) \<rparr>)"
proof (cases "access_denied h found")
  case True
  from query_refused [OF assms(1-4) this] True show ?thesis
    by (simp add: refusal_def)
next
  case False
  then obtain c where c: "found = Some c" "hasAccessToPlayer h c"
    by (auto simp add: access_denied_def split: option.splits)
  with assms(5) False have m: "queryHandlers_get queryHandlers query = Missing" by simp
  from assms(4) c have g: "getChatroomCharacter sender h s = (Some c, s1)" by simp
  from query_no_handler [OF assms(1-3) g c(2) m] False show ?thesis
    by (simp add: refusal_def)
qed

theorem refused_query_answered_in_room_witness:
  "isObject query_q2 \<and> jsget query_q2 ''id'' = JStr ''q2''
   \<and> jsget query_q2 ''query'' = JStr ''permissionAccess''
   \<and> access_denied room (fst (getChatroomCharacter 3 room bcx_init))
   \<and> map_sum (\<lambda>e. e) ServerSend (query_handler Map.empty room 3 query_q2 bcx_init) =
        Inr [\<lparr> Content = ''BCXMsg'', Type = ''Hidden'', Target = None,
               Dictionary = JObj [(''type'', JStr ''queryAnswer''),
                 (''message'', JObj [(''id'', JStr ''q2''), (''ok'', JBool False)])] \<rparr>]"
proof -
  obtain found s1 where g: "getChatroomCharacter 3 room bcx_init = (found, s1)"
    and found: "found = Some \<lparr> isPlayer = False, BCXVersion = None, Character = carol,
               Effects = defaultBCXEffects, typingIndicatorEnable = True \<rparr>"
    by (subst (asm) getChatroomCharacter_carol) (simp add: room_def)
  have a: "access_denied room found"
    by (simp add: found access_denied_def hasAccessToPlayer_def room_def carol_def)
  have q: "isObject query_q2" "jsget query_q2 ''id'' = JStr ''q2''"
    "jsget query_q2 ''query'' = JStr ''permissionAccess''"
    by (simp_all add: query_q2_def)
  have r: "ServerPlayerIsInChatRoom room" "\<not> firstTimeInit room" "ServerSend bcx_init = []"
    by (simp_all add: room_def bcx_init_def)
  have "map_sum (\<lambda>e. e) ServerSend (query_handler Map.empty room 3 query_q2 bcx_init) =
        Inr [\<lparr> Content = ''BCXMsg'', Type = ''Hidden'', Target = None,
               Dictionary = JObj [(''type'', JStr ''queryAnswer''),
                 (''message'', JObj [(''id'', JStr ''q2''), (''ok'', JBool False)])] \<rparr>]"
    using refused_query_answered_in_room [OF q g, of Map.empty] a r by simp
  then show ?thesis using q g a by simp
qed

lemma replyFn_ServerSend:
  "ServerSend (replyFn qid sender h ok data s2) =
     ServerSend s2 @
       (if ServerPlayerIsInChatRoom h \<and> \<not> firstTimeInit h
        then [\<lparr> Content = ''BCXMsg'', Type = ''Hidden'', Target = Some sender,
                Dictionary = JObj [(''type'', JStr ''queryAnswer''),
                  (''message'', JObj [(''id'', JStr qid), (''ok'', JBool ok), (''data'', data)])] \<rparr>]
        else [])"
  by (simp add: replyFn_def sendHiddenMessage_ServerSend)

text \<open>
  C10. The answer \<open>{id, ok: false}\<close> that refuses a query (access check failed, or no
  handler for the tag) is sent with target \<open>null\<close>, to the whole room; a registered
  handler is given a reply function that addresses its answer to the sender of the query.
\<close>

theorem refusal_broadcast_reply_addressed:
  assumes "isObject message" and "jsget message ''id'' = JStr qid"
    and "jsget message ''query'' = JStr query"
    and "getChatroomCharacter sender h s = (found, s1)"
  shows "(access_denied h found \<or> queryHandlers_get queryHandlers query = Missing \<longrightarrow>
            (\<exists>s'. query_handler queryHandlers h sender message s = Inr s'
               \<and> map Target (drop (length (ServerSend s)) (ServerSend s')) =
                   (if ServerPlayerIsInChatRoom h \<and> \<not> firstTimeInit h then [None] else [])))
       \<and> (\<forall>c handler. found = Some c \<and> hasAccessToPlayer h c
               \<and> queryHandlers_get queryHandlers query = Own handler \<longrightarrow>
            query_handler queryHandlers h sender message s =
              Inr (handler c (replyFn qid sender h) (jsget message ''data'') s1))
       \<and> (\<forall>ok data s2.
            map Target (drop (length (ServerSend s2))
                          (ServerSend (replyFn qid sender h ok data s2))) =
              (if ServerPlayerIsInChatRoom h \<and> \<not> firstTimeInit h then [Some sender] else []))"
proof (intro conjI impI allI)
  assume r: "access_denied h found \<or> queryHandlers_get queryHandlers query = Missing"
  show "\<exists>s'. query_handler queryHandlers h sender message s = Inr s'
               \<and> map Target (drop (length (ServerSend s)) (ServerSend s')) =
                   (if ServerPlayerIsInChatRoom h \<and> \<not> firstTimeInit h then [None] else [])"
  proof (cases "access_denied h found")
    case True
    show ?thesis
      unfolding query_refused [OF assms True] by (simp add: refusal_def)
  next
    case False
    then obtain c where c: "found = Some c" "hasAccessToPlayer h c"
      by (auto simp add: access_denied_def split: option.splits)
    with r False have m: "queryHandlers_get queryHandlers query = Missing" by simp
    from assms(4) c have g: "getChatroomCharacter sender h s = (Some c, s1)" by simp
    show ?thesis
      unfolding query_no_handler [OF assms(1-3) g c(2) m] by (simp add: refusal_def)
  qed
next
  fix c handler
  assume "found = Some c \<and> hasAccessToPlayer h c
               \<and> queryHandlers_get queryHandlers query = Own handler"
  with assms show "query_handler queryHandlers h sender message s =
              Inr (handler c (replyFn qid sender h) (jsget message ''data'') s1)"
    by (simp add: query_handled)
next
  fix ok data s2
  show "map Target (drop (length (ServerSend s2))
                          (ServerSend (replyFn qid sender h ok data s2))) =
              (if ServerPlayerIsInChatRoom h \<and> \<not> firstTimeInit h then [Some sender] else [])"
    by (simp add: replyFn_ServerSend)
qed

lemma getChatroomCharacter_bob:
  "getChatroomCharacter 2 room bcx_init =
       (Some \<lparr> isPlayer = False, BCXVersion = None, Character = bob,
               Effects = defaultBCXEffects, typingIndicatorEnable = True \<rparr>,
        bcx_init\<lparr> currentRoomCharacters :=
             [\<lparr> isPlayer = False, BCXVersion = None, Character = bob,
                Effects = defaultBCXEffects, typingIndicatorEnable = True \<rparr>],
           console := [(Debug, ''BCX: Loaded character'', [JStr ''Bob'', JNum 2])] \<rparr>)"
  by (simp add: getChatroomCharacter_def cleanOldCharacters_def new_ChatroomCharacter_def
      constructed_def console_log_def bcx_init_def alice_def bob_def carol_def room_def)

theorem refusal_broadcast_reply_addressed_witness:
  "isObject query_q2 \<and> jsget query_q2 ''id'' = JStr ''q2''
   \<and> jsget query_q2 ''query'' = JStr ''permissionAccess''
   \<and> access_denied room (fst (getChatroomCharacter 3 room bcx_init))
   \<and> map_sum (\<lambda>e. e) (map Target \<circ> ServerSend)
        (query_handler [''permissionAccess'' \<mapsto> allow_all] room 3 query_q2 bcx_init) = Inr [None]
   \<and> \<not> access_denied room (fst (getChatroomCharacter 2 room bcx_init))
   \<and> queryHandlers_get [''permissionAccess'' \<mapsto> allow_all] ''permissionAccess'' = Own allow_all
   \<and> map_sum (\<lambda>e. e) (map Target \<circ> ServerSend)
        (query_handler [''permissionAccess'' \<mapsto> allow_all] room 2 query_q2 bcx_init) = Inr [Some 2]"
proof -
  obtain found s1 where g: "getChatroomCharacter 3 room bcx_init = (found, s1)"
    and found: "found = Some \<lparr> isPlayer = False, BCXVersion = None, Character = carol,
               Effects = defaultBCXEffects, typingIndicatorEnable = True \<rparr>"
    by (subst (asm) getChatroomCharacter_carol) (simp add: room_def)
  have a: "access_denied room found"
    by (simp add: found access_denied_def hasAccessToPlayer_def room_def carol_def)
  have q: "isObject query_q2" "jsget query_q2 ''id'' = JStr ''q2''"
    "jsget query_q2 ''query'' = JStr ''permissionAccess''"
    by (simp_all add: query_q2_def)
  have r: "ServerPlayerIsInChatRoom room" "\<not> firstTimeInit room" "ServerSend bcx_init = []"
    by (simp_all add: room_def bcx_init_def)
  let ?bob = "\<lparr> isPlayer = False, BCXVersion = None, Character = bob,
               Effects = defaultBCXEffects, typingIndicatorEnable = True \<rparr>"
  have b: "\<not> access_denied room (Some ?bob)" "hasAccessToPlayer room ?bob"
    by (simp_all add: access_denied_def hasAccessToPlayer_def room_def bob_def)
  have o: "queryHandlers_get [''permissionAccess'' \<mapsto> allow_all] ''permissionAccess'' = Own allow_all"
    by (simp add: queryHandlers_get_def)
  note t3 = refusal_broadcast_reply_addressed [OF q g, of "[''permissionAccess'' \<mapsto> allow_all]"]
  note t2 = refusal_broadcast_reply_addressed [OF q getChatroomCharacter_bob,
      of "[''permissionAccess'' \<mapsto> allow_all]"]
  from t3 a r have c3: "map_sum (\<lambda>e. e) (map Target \<circ> ServerSend)
        (query_handler [''permissionAccess'' \<mapsto> allow_all] room 3 query_q2 bcx_init) = Inr [None]"
    by auto
  from t2 b o have "query_handler [''permissionAccess'' \<mapsto> allow_all] room 2 query_q2 bcx_init =
      Inr (allow_all ?bob (replyFn ''q2'' 2 room) (jsget query_q2 ''data'')
        (bcx_init\<lparr> currentRoomCharacters := [?bob],
           console := [(Debug, ''BCX: Loaded character'', [JStr ''Bob'', JNum 2])] \<rparr>))"
    by blast
  then have c2: "map_sum (\<lambda>e. e) (map Target \<circ> ServerSend)
        (query_handler [''permissionAccess'' \<mapsto> allow_all] room 2 query_q2 bcx_init) = Inr [Some 2]"
    using r by (simp add: allow_all_def replyFn_ServerSend)
  from q g a c3 b o c2 show ?thesis by (simp add: getChatroomCharacter_bob)
qed

section \<open>Dispatch of inbound hidden messages\<close>

text \<open>
  C8, as stated, fails during the first initialisation: a message whose \<open>Dictionary\<close>
  is not an object is then dropped without a log line.
\<close>

theorem hidden_message_dispatch_counterexample:
  "jsget (hidden_message 2 JNull) ''Type'' = JStr ''Hidden''
   \<and> jsget (hidden_message 2 JNull) ''Content'' = JStr ''BCXMsg''
   \<and> jsget (hidden_message 2 JNull) ''Sender'' = JNum 2
   \<and> MemberNumber (Player starting) = Some 1
   \<and> \<not> isObject (jsget (hidden_message 2 JNull) ''Dictionary'')
   \<and> ChatRoomMessage_hook (hiddenMessageHandlers Map.empty [] starting) starting
        (hidden_message 2 JNull) bcx_init = Returned bcx_init
   \<and> console bcx_init = []"
  by (simp add: hidden_message_def ChatRoomMessage_hook_def starting_def room_def alice_def
      bcx_init_def)

text \<open>
  C8 (amended). For a payload recognised as a hidden BCX message the hook never hands
  the message on and cannot fail before a handler runs. If the stated sender is the
  player, or the first initialisation is not over, the message is ignored without a
  trace. Otherwise, a \<open>Dictionary\<close> that is not an object, and a type that is a string
  without a registered handler, are logged and dropped; a type that is not a string is
  dropped without a log line. A handler is called only in the remaining case, and then
  it is the handler registered for the type, with the sender and the inner message.
\<close>

theorem hidden_message_dispatch:
  assumes "jsget data ''Type'' = JStr ''Hidden''"
    and "jsget data ''Content'' = JStr ''BCXMsg''"
    and "jsget data ''Sender'' = JNum sender"
  shows "ChatRoomMessage_hook handlers h data s \<noteq> CallNext
       \<and> (MemberNumber (Player h) = Some sender \<or> firstTimeInit h \<longrightarrow>
            ChatRoomMessage_hook handlers h data s = Returned s)
       \<and> (MemberNumber (Player h) \<noteq> Some sender \<and> \<not> firstTimeInit h
            \<and> \<not> isObject (jsget data ''Dictionary'') \<longrightarrow>
            ChatRoomMessage_hook handlers h data s =
              Returned (console_log Warn ''BCX: Hidden message no Dictionary'' [data] s))
       \<and> (\<forall>tag. MemberNumber (Player h) \<noteq> Some sender \<and> \<not> firstTimeInit h
            \<and> isObject (jsget data ''Dictionary'')
            \<and> jsget (jsget data ''Dictionary'') ''type'' = JStr tag \<and> handlers tag = None \<longrightarrow>
            ChatRoomMessage_hook handlers h data s =
              Returned (console_log Warn ''BCX: Hidden message no handler''
                [JNum sender, JStr tag, jsget (jsget data ''Dictionary'') ''message''] s))
       \<and> (MemberNumber (Player h) \<noteq> Some sender \<and> \<not> firstTimeInit h
            \<and> isObject (jsget data ''Dictionary'')
            \<and> typeof (jsget (jsget data ''Dictionary'') ''type'') \<noteq> TString \<longrightarrow>
            ChatRoomMessage_hook handlers h data s = Returned s)
       \<and> (\<forall>r. ChatRoomMessage_hook handlers h data s = HandlerCalled r \<longrightarrow>
            MemberNumber (Player h) \<noteq> Some sender \<and> \<not> firstTimeInit h
            \<and> isObject (jsget data ''Dictionary'')
            \<and> (\<exists>tag handler. jsget (jsget data ''Dictionary'') ''type'' = JStr tag
                 \<and> handlers tag = Some handler
                 \<and> r = handler sender (jsget (jsget data ''Dictionary'') ''message'') s))
       \<and> (\<forall>tag handler. MemberNumber (Player h) \<noteq> Some sender \<and> \<not> firstTimeInit h
            \<and> isObject (jsget data ''Dictionary'')
            \<and> jsget (jsget data ''Dictionary'') ''type'' = JStr tag
            \<and> handlers tag = Some handler \<longrightarrow>
            ChatRoomMessage_hook handlers h data s =
              HandlerCalled (handler sender (jsget (jsget data ''Dictionary'') ''message'') s))"
proof -
  have 1: "ChatRoomMessage_hook handlers h data s \<noteq> CallNext"
    using assms
    by (simp add: ChatRoomMessage_hook_def Let_def split: jsval.splits option.splits)
  have 2: "MemberNumber (Player h) = Some sender \<or> firstTimeInit h \<longrightarrow>
            ChatRoomMessage_hook handlers h data s = Returned s"
    using assms by (simp add: ChatRoomMessage_hook_def)
  have 3: "MemberNumber (Player h) \<noteq> Some sender \<and> \<not> firstTimeInit h
            \<and> \<not> isObject (jsget data ''Dictionary'') \<longrightarrow>
            ChatRoomMessage_hook handlers h data s =
              Returned (console_log Warn ''BCX: Hidden message no Dictionary'' [data] s)"
    using assms by (simp add: ChatRoomMessage_hook_def)
  have 4: "\<forall>tag. MemberNumber (Player h) \<noteq> Some sender \<and> \<not> firstTimeInit h
            \<and> isObject (jsget data ''Dictionary'')
            \<and> jsget (jsget data ''Dictionary'') ''type'' = JStr tag \<and> handlers tag = None \<longrightarrow>
            ChatRoomMessage_hook handlers h data s =
              Returned (console_log Warn ''BCX: Hidden message no handler''
                [JNum sender, JStr tag, jsget (jsget data ''Dictionary'') ''message''] s)"
    using assms by (simp add: ChatRoomMessage_hook_def)
  have 5: "MemberNumber (Player h) \<noteq> Some sender \<and> \<not> firstTimeInit h
            \<and> isObject (jsget data ''Dictionary'')
            \<and> typeof (jsget (jsget data ''Dictionary'') ''type'') \<noteq> TString \<longrightarrow>
            ChatRoomMessage_hook handlers h data s = Returned s"
    using assms
    by (cases "jsget (jsget data ''Dictionary'') ''type''")
       (simp_all add: ChatRoomMessage_hook_def)
  have 6: "\<forall>r. ChatRoomMessage_hook handlers h data s = HandlerCalled r \<longrightarrow>
            MemberNumber (Player h) \<noteq> Some sender \<and> \<not> firstTimeInit h
            \<and> isObject (jsget data ''Dictionary'')
            \<and> (\<exists>tag handler. jsget (jsget data ''Dictionary'') ''type'' = JStr tag
                 \<and> handlers tag = Some handler
                 \<and> r = handler sender (jsget (jsget data ''Dictionary'') ''message'') s)"
    using assms
    by (cases "jsget (jsget data ''Dictionary'') ''type''")
       (auto simp add: ChatRoomMessage_hook_def Let_def split: if_splits option.splits)
  have 7: "\<forall>tag handler. MemberNumber (Player h) \<noteq> Some sender \<and> \<not> firstTimeInit h
            \<and> isObject (jsget data ''Dictionary'')
            \<and> jsget (jsget data ''Dictionary'') ''type'' = JStr tag
            \<and> handlers tag = Some handler \<longrightarrow>
            ChatRoomMessage_hook handlers h data s =
              HandlerCalled (handler sender (jsget (jsget data ''Dictionary'') ''message'') s)"
    using assms by (simp add: ChatRoomMessage_hook_def)
  from 1 2 3 4 5 6 7 show ?thesis by blast
qed

theorem hidden_message_dispatch_witness:
  "jsget (hidden_message 2 JNull) ''Type'' = JStr ''Hidden''
   \<and> jsget (hidden_message 2 JNull) ''Content'' = JStr ''BCXMsg''
   \<and> jsget (hidden_message 2 JNull) ''Sender'' = JNum 2
   \<and> MemberNumber (Player room) = Some 1 \<and> \<not> firstTimeInit room
   \<and> \<not> isObject (jsget (hidden_message 2 JNull) ''Dictionary'')
   \<and> ChatRoomMessage_hook (hiddenMessageHandlers Map.empty [] room) room
        (hidden_message 2 JNull) bcx_init =
      Returned (bcx_init\<lparr> console :=
        [(Warn, ''BCX: Hidden message no Dictionary'', [hidden_message 2 JNull])] \<rparr>)"
  using hidden_message_dispatch
    [of "hidden_message 2 JNull" 2 "hiddenMessageHandlers Map.empty [] room" room bcx_init]
  by (simp add: hidden_message_def room_def alice_def bcx_init_def console_log_def)

section \<open>The registry of characters\<close>

lemma cleanOldCharacters_loop_filter:
  "n \<le> length cs \<Longrightarrow>
     cleanOldCharacters_loop h n cs = filter (still_present h) (take n cs) @ drop n cs"
proof (induction n arbitrary: cs)
  case 0
  then show ?case by simp
next
  case (Suc n)
  then have n: "n < length cs" by simp
  show ?case
  proof (cases "still_present h (cs ! n)")
    case True
    then have "cleanOldCharacters_loop h (Suc n) cs = cleanOldCharacters_loop h n cs"
      by (auto simp add: still_present_def)
    also have "\<dots> = filter (still_present h) (take n cs) @ drop n cs"
      using Suc.IH [of cs] n by simp
    also have "\<dots> = filter (still_present h) (take (Suc n) cs) @ drop (Suc n) cs"
      using n True by (simp add: take_Suc_conv_app_nth Cons_nth_drop_Suc)
    finally show ?thesis .
  next
    case False
    have len: "n \<le> length (splice1 n cs)"
      using n by (simp add: splice1_def)
    from False have "cleanOldCharacters_loop h (Suc n) cs = cleanOldCharacters_loop h n (splice1 n cs)"
      by (auto simp add: still_present_def)
    also have "\<dots> = filter (still_present h) (take n (splice1 n cs)) @ drop n (splice1 n cs)"
      using Suc.IH [OF len] .
    also have "\<dots> = filter (still_present h) (take n cs) @ drop (Suc n) cs"
      using n by (simp add: splice1_def)
    also have "\<dots> = filter (still_present h) (take (Suc n) cs) @ drop (Suc n) cs"
      using n False by (simp add: take_Suc_conv_app_nth)
    finally show ?thesis .
  qed
qed

lemma cleanOldCharacters_filter:
  "cleanOldCharacters h s =
     s\<lparr> currentRoomCharacters := filter (still_present h) (currentRoomCharacters s) \<rparr>"
  by (simp add: cleanOldCharacters_def cleanOldCharacters_loop_filter)

lemma getChatroomCharacter_filter:
  "getChatroomCharacter n h s =
     (let kept = filter (still_present h) (currentRoomCharacters s);
          s1 = s\<lparr> currentRoomCharacters := kept \<rparr>
      in case find (\<lambda>c. MemberNumber (Character c) = Some n) kept of
           Some c \<Rightarrow> (Some c, s1)
         | None \<Rightarrow>
             if MemberNumber (Player h) = Some n then
               (Some (constructed True (Player h) h),
                snd (new_ChatroomCharacter True (Player h) h s1)
                  \<lparr> currentRoomCharacters := kept @ [constructed True (Player h) h] \<rparr>)
             else case find (\<lambda>c. MemberNumber c = Some n) (ChatRoomCharacter h) of
                    None \<Rightarrow> (None, s1)
                  | Some BCCharacter \<Rightarrow>
                      (Some (constructed False BCCharacter h),
                       snd (new_ChatroomCharacter False BCCharacter h s1)
                         \<lparr> currentRoomCharacters := kept @ [constructed False BCCharacter h] \<rparr>))"
  by (simp add: getChatroomCharacter_def cleanOldCharacters_filter new_ChatroomCharacter_def
      console_log_def Let_def split: option.splits)

lemma registry_after_lookup:
  "currentRoomCharacters (snd (getChatroomCharacter n h s)) =
     (let kept = filter (still_present h) (currentRoomCharacters s)
      in case find (\<lambda>c. MemberNumber (Character c) = Some n) kept of
           Some c \<Rightarrow> kept
         | None \<Rightarrow>
             if MemberNumber (Player h) = Some n then kept @ [constructed True (Player h) h]
             else case find (\<lambda>c. MemberNumber c = Some n) (ChatRoomCharacter h) of
                    None \<Rightarrow> kept
                  | Some BCCharacter \<Rightarrow> kept @ [constructed False BCCharacter h])"
  by (simp add: getChatroomCharacter_filter Let_def split: option.splits)

lemma result_of_lookup:
  "fst (getChatroomCharacter n h s) =
     (let kept = filter (still_present h) (currentRoomCharacters s)
      in case find (\<lambda>c. MemberNumber (Character c) = Some n) kept of
           Some c \<Rightarrow> Some c
         | None \<Rightarrow>
             if MemberNumber (Player h) = Some n then Some (constructed True (Player h) h)
             else case find (\<lambda>c. MemberNumber c = Some n) (ChatRoomCharacter h) of
                    None \<Rightarrow> None
                  | Some BCCharacter \<Rightarrow> Some (constructed False BCCharacter h))"
  by (simp add: getChatroomCharacter_filter Let_def split: option.splits)

lemma one_proxy_filter:
  "one_proxy_per_member h cs \<Longrightarrow> one_proxy_per_member h (filter P cs)"
  by (simp add: one_proxy_per_member_def distinct_map_filter)

lemma one_proxy_append:
  assumes "one_proxy_per_member h cs"
    and "\<forall>x \<in> set cs. MemberNumber (Character x) \<noteq> MemberNumber (Character c)"
    and "MemberNumber (Character c) = MemberNumber (Player h) \<longrightarrow>
           cref (Character c) = cref (Player h)"
  shows "one_proxy_per_member h (cs @ [c])"
  using assms by (auto simp add: one_proxy_per_member_def)

lemma find_in_room:
  "find (\<lambda>c. MemberNumber c = Some n) cs = Some b \<Longrightarrow> MemberNumber b = Some n \<and> b \<in> set cs"
  by (auto simp add: find_Some_iff)

lemma lookup_keeps_one_proxy:
  assumes "one_proxy_per_member h (currentRoomCharacters s)"
  shows "one_proxy_per_member h (currentRoomCharacters (snd (getChatroomCharacter n h s)))"
proof -
  let ?kept = "filter (still_present h) (currentRoomCharacters s)"
  have k: "one_proxy_per_member h ?kept" by (rule one_proxy_filter [OF assms])
  show ?thesis
  proof (cases "find (\<lambda>c. MemberNumber (Character c) = Some n) ?kept")
    case (Some c)
    then show ?thesis using k by (simp add: registry_after_lookup)
  next
    case None
    then have fresh: "\<forall>x \<in> set ?kept. MemberNumber (Character x) \<noteq> Some n"
      by (simp add: find_None_iff)
    show ?thesis
    proof (cases "MemberNumber (Player h) = Some n")
      case True
      have "one_proxy_per_member h (?kept @ [constructed True (Player h) h])"
        by (rule one_proxy_append [OF k]) (use fresh True in \<open>simp_all add: constructed_def\<close>)
      then show ?thesis using None True by (simp add: registry_after_lookup)
    next
      case False
      show ?thesis
      proof (cases "find (\<lambda>c. MemberNumber c = Some n) (ChatRoomCharacter h)")
        case None': None
        then show ?thesis using None False k by (simp add: registry_after_lookup)
      next
        case (Some b)
        then have b: "MemberNumber b = Some n" using find_in_room by fastforce
        have "one_proxy_per_member h (?kept @ [constructed False b h])"
          by (rule one_proxy_append [OF k]) (use fresh False b in \<open>simp_all add: constructed_def\<close>)
        then show ?thesis using None False Some by (simp add: registry_after_lookup)
      qed
    qed
  qed
qed

lemma lookup_keeps_self:
  assumes "c \<in> set (currentRoomCharacters s)" and "isPlayer c"
  shows "c \<in> set (currentRoomCharacters (snd (getChatroomCharacter n h s)))"
  using assms
  by (auto simp add: registry_after_lookup still_present_def Let_def split: option.splits)

lemma lookup_evicts_stale:
  assumes "c \<in> set (currentRoomCharacters (snd (getChatroomCharacter n h s)))"
  shows "still_present h c"
proof -
  have room: "\<And>b. find (\<lambda>c. MemberNumber c = Some n) (ChatRoomCharacter h) = Some b \<Longrightarrow>
      still_present h (constructed False b h)"
    using find_in_room [of n "ChatRoomCharacter h"]
    by (auto simp add: still_present_def constructed_def includes_ref_def)
  have self: "still_present h (constructed True (Player h) h)"
    by (simp add: still_present_def constructed_def)
  from assms show ?thesis
    using room self
    by (auto simp add: registry_after_lookup Let_def split: option.splits if_splits)
qed

lemma getPlayerCharacter_registry:
  "currentRoomCharacters (snd (getPlayerCharacter h s)) =
     (case find (\<lambda>c. cref (Character c) = cref (Player h)) (currentRoomCharacters s) of
        Some c \<Rightarrow> currentRoomCharacters s
      | None \<Rightarrow> currentRoomCharacters s @ [constructed True (Player h) h])"
  by (simp add: getPlayerCharacter_def new_ChatroomCharacter_def console_log_def
      split: option.splits)

lemma getPlayerCharacter_keeps_one_proxy:
  assumes "one_proxy_per_member h (currentRoomCharacters s)"
  shows "one_proxy_per_member h (currentRoomCharacters (snd (getPlayerCharacter h s)))"
proof (cases "find (\<lambda>c. cref (Character c) = cref (Player h)) (currentRoomCharacters s)")
  case None
  then have "\<forall>x \<in> set (currentRoomCharacters s). cref (Character x) \<noteq> cref (Player h)"
    by (simp add: find_None_iff)
  with assms have "\<forall>x \<in> set (currentRoomCharacters s).
      MemberNumber (Character x) \<noteq> MemberNumber (Player h)"
    by (auto simp add: one_proxy_per_member_def)
  then have "one_proxy_per_member h (currentRoomCharacters s @ [constructed True (Player h) h])"
    by (intro one_proxy_append [OF assms]) (simp_all add: constructed_def)
  then show ?thesis using None by (simp add: getPlayerCharacter_registry)
next
  case (Some c)
  then show ?thesis using assms by (simp add: getPlayerCharacter_registry)
qed

lemma one_proxy_per_member_empty: "one_proxy_per_member h []"
  by (simp add: one_proxy_per_member_def)

text \<open>
  C7. The registry starts empty. With at most one cached proxy per member number before
  a lookup, there is at most one after it, and after \<open>getPlayerCharacter\<close>. A lookup first drops exactly the cached
  proxies that are neither the self proxy nor of a character in the current room (there is
  no other sweep), so the self proxy always stays. It then returns the cached proxy of the
  member number if there is one; otherwise it makes and caches a self proxy if the number
  is the player's, a remote proxy if a character in the room has the number, and returns
  nothing, caching nothing, if none has.
\<close>

theorem registry_lookup:
  assumes "one_proxy_per_member h (currentRoomCharacters s)"
  shows "one_proxy_per_member h (currentRoomCharacters (snd (getChatroomCharacter n h s)))
       \<and> one_proxy_per_member h (currentRoomCharacters (snd (getPlayerCharacter h s)))
       \<and> (\<forall>c \<in> set (currentRoomCharacters s). isPlayer c \<longrightarrow>
             c \<in> set (currentRoomCharacters (snd (getChatroomCharacter n h s)))
             \<and> c \<in> set (currentRoomCharacters (snd (getPlayerCharacter h s))))
       \<and> (\<forall>c \<in> set (currentRoomCharacters (snd (getChatroomCharacter n h s))).
             isPlayer c \<or> includes_ref (ChatRoomCharacter h) (Character c))
       \<and> currentRoomCharacters (snd (getChatroomCharacter n h s)) =
           (let kept = filter (still_present h) (currentRoomCharacters s)
            in case find (\<lambda>c. MemberNumber (Character c) = Some n) kept of
                 Some c \<Rightarrow> kept
               | None \<Rightarrow>
                   if MemberNumber (Player h) = Some n then kept @ [constructed True (Player h) h]
                   else case find (\<lambda>c. MemberNumber c = Some n) (ChatRoomCharacter h) of
                          None \<Rightarrow> kept
                        | Some BCCharacter \<Rightarrow> kept @ [constructed False BCCharacter h])
       \<and> fst (getChatroomCharacter n h s) =
           (let kept = filter (still_present h) (currentRoomCharacters s)
            in case find (\<lambda>c. MemberNumber (Character c) = Some n) kept of
                 Some c \<Rightarrow> Some c
               | None \<Rightarrow>
                   if MemberNumber (Player h) = Some n then Some (constructed True (Player h) h)
                   else case find (\<lambda>c. MemberNumber c = Some n) (ChatRoomCharacter h) of
                          None \<Rightarrow> None
                        | Some BCCharacter \<Rightarrow> Some (constructed False BCCharacter h))"
proof -
  have self: "\<forall>c \<in> set (currentRoomCharacters s). isPlayer c \<longrightarrow>
             c \<in> set (currentRoomCharacters (snd (getChatroomCharacter n h s)))
             \<and> c \<in> set (currentRoomCharacters (snd (getPlayerCharacter h s)))"
    using lookup_keeps_self [of _ s n h]
    by (auto simp add: getPlayerCharacter_registry split: option.splits)
  have stale: "\<forall>c \<in> set (currentRoomCharacters (snd (getChatroomCharacter n h s))).
             isPlayer c \<or> includes_ref (ChatRoomCharacter h) (Character c)"
    using lookup_evicts_stale [of _ n h s] by (auto simp add: still_present_def)
  from lookup_keeps_one_proxy [OF assms, of n] getPlayerCharacter_keeps_one_proxy [OF assms]
    self stale registry_after_lookup [of n h s] result_of_lookup [of n h s]
  show ?thesis by blast
qed

theorem registry_lookup_witness:
  "one_proxy_per_member room (currentRoomCharacters cached)
   \<and> currentRoomCharacters (snd (getChatroomCharacter 3 room cached)) =
       [constructed True alice room, constructed False bob room, constructed False carol room]
   \<and> fst (getChatroomCharacter 3 room cached) = Some (constructed False carol room)
   \<and> fst (getChatroomCharacter 4 room cached) = None
   \<and> fst (getChatroomCharacter 1 room cached) = Some (constructed True alice room)
   \<and> one_proxy_per_member room (currentRoomCharacters (snd (getChatroomCharacter 3 room cached)))"
proof -
  have inv: "one_proxy_per_member room (currentRoomCharacters cached)"
    by (simp add: one_proxy_per_member_def cached_def constructed_def room_def alice_def
        bob_def dave_def)
  have kept: "filter (still_present room) (currentRoomCharacters cached) =
      [constructed True alice room, constructed False bob room]"
    by (simp add: still_present_def includes_ref_def cached_def constructed_def room_def
        alice_def bob_def carol_def dave_def)
  have room: "ChatRoomCharacter room = [alice, bob, carol]" "Player room = alice"
    by (simp_all add: room_def)
  have nums: "MemberNumber alice = Some 1" "MemberNumber bob = Some 2"
    "MemberNumber carol = Some 3"
    by (simp_all add: alice_def bob_def carol_def)
  have chars: "Character (constructed True alice room) = alice"
    "Character (constructed False bob room) = bob"
    by (simp_all add: constructed_def)
  note l3 = registry_lookup [OF inv, of 3]
  have o3: "one_proxy_per_member room (currentRoomCharacters (snd (getChatroomCharacter 3 room cached)))"
    using l3 by blast
  have r3: "currentRoomCharacters (snd (getChatroomCharacter 3 room cached)) =
       [constructed True alice room, constructed False bob room, constructed False carol room]"
    and f3: "fst (getChatroomCharacter 3 room cached) = Some (constructed False carol room)"
    using l3 by (simp_all add: kept room nums chars)
  have f4: "fst (getChatroomCharacter 4 room cached) = None"
    using registry_lookup [OF inv, of 4] by (simp add: kept room nums chars)
  have f1: "fst (getChatroomCharacter 1 room cached) = Some (constructed True alice room)"
    using registry_lookup [OF inv, of 1] by (simp add: kept room nums chars)
  from inv o3 r3 f3 f4 f1 show ?thesis by blast
qed

section \<open>The effects of the player\<close>

lemma find_snoc:
  "find P xs = None \<Longrightarrow> P x \<Longrightarrow> find P (xs @ [x]) = Some x"
  by (induction xs) (simp_all split: if_splits)

lemma getPlayerCharacter_found:
  "find (\<lambda>c. cref (Character c) = cref (Player h))
     (currentRoomCharacters (snd (getPlayerCharacter h s))) = Some (fst (getPlayerCharacter h s))"
proof (cases "find (\<lambda>c. cref (Character c) = cref (Player h)) (currentRoomCharacters s)")
  case None
  then have "find (\<lambda>c. cref (Character c) = cref (Player h))
      (currentRoomCharacters s @ [constructed True (Player h) h]) = Some (constructed True (Player h) h)"
    by (simp add: find_snoc constructed_def)
  then show ?thesis using None
    by (simp add: getPlayerCharacter_def new_ChatroomCharacter_def console_log_def)
next
  case (Some c)
  then show ?thesis by (simp add: getPlayerCharacter_def)
qed

lemma getPlayerCharacter_cached:
  "find (\<lambda>c. cref (Character c) = cref (Player h)) (currentRoomCharacters s) = Some c \<Longrightarrow>
     getPlayerCharacter h s = (c, s)"
  by (simp add: getPlayerCharacter_def)

lemma getPlayerCharacter_counters:
  "CharacterRefresh_calls (snd (getPlayerCharacter h s)) = CharacterRefresh_calls s"
  "announceSelf_calls (snd (getPlayerCharacter h s)) = announceSelf_calls s"
  by (simp_all add: getPlayerCharacter_def new_ChatroomCharacter_def console_log_def
      split: option.splits)

lemma find_set_player_Effects:
  "find (\<lambda>c. cref (Character c) = cref (Player h)) (set_player_Effects h effects cs) =
     map_option (\<lambda>c. c\<lparr> Effects := effects \<rparr>)
       (find (\<lambda>c. cref (Character c) = cref (Player h)) cs)"
  by (induction cs) simp_all

lemma run_builders_append:
  "run_builders (builders @ later) effects = run_builders later (run_builders builders effects)"
  by (induction builders arbitrary: effects) simp_all

lemma buildPlayerEffects_eq:
  "buildPlayerEffects builders h s =
     (if run_builders builders defaultBCXEffects = Effects (fst (getPlayerCharacter h s))
      then snd (getPlayerCharacter h s)
      else (snd (getPlayerCharacter h s))
             \<lparr> currentRoomCharacters :=
                  set_player_Effects h (run_builders builders defaultBCXEffects)
                    (currentRoomCharacters (snd (getPlayerCharacter h s))),
               CharacterRefresh_calls := Suc (CharacterRefresh_calls s),
               announceSelf_calls := Suc (announceSelf_calls s) \<rparr>)"
  by (simp add: buildPlayerEffects_def Let_def case_prod_unfold getPlayerCharacter_counters)

lemma player_after_tick:
  "find (\<lambda>c. cref (Character c) = cref (Player h))
     (currentRoomCharacters (buildPlayerEffects builders h s)) =
   Some ((fst (getPlayerCharacter h s))\<lparr> Effects := run_builders builders defaultBCXEffects \<rparr>)"
proof (cases "run_builders builders defaultBCXEffects = Effects (fst (getPlayerCharacter h s))")
  case True
  then have "(fst (getPlayerCharacter h s))\<lparr> Effects := run_builders builders defaultBCXEffects \<rparr>
      = fst (getPlayerCharacter h s)" by simp
  with True show ?thesis
    by (simp add: buildPlayerEffects_eq getPlayerCharacter_found)
next
  case False
  then show ?thesis
    by (simp add: buildPlayerEffects_eq find_set_player_Effects getPlayerCharacter_found)
qed

text \<open>
  C6. A tick runs the registered builders in the order of their registration on the
  default record. If the record built equals the \<open>Effects\<close> of the self proxy, the tick
  changes nothing beyond what looking the proxy up does: no refresh, no announcement. If
  it differs, the record becomes the \<open>Effects\<close> of the self proxy, and \<open>CharacterRefresh\<close>
  and \<open>announceSelf\<close> are each called once. Either way the self proxy carries the record
  built, so a second tick with the same builders does nothing at all.
\<close>

theorem buildPlayerEffects_tick:
  "(let built = run_builders builders defaultBCXEffects;
        player = fst (getPlayerCharacter h s);
        s1 = snd (getPlayerCharacter h s);
        s' = buildPlayerEffects builders h s
    in (if built = Effects player
        then s' = s1
           \<and> CharacterRefresh_calls s' = CharacterRefresh_calls s
           \<and> announceSelf_calls s' = announceSelf_calls s
        else currentRoomCharacters s' = set_player_Effects h built (currentRoomCharacters s1)
           \<and> CharacterRefresh_calls s' = Suc (CharacterRefresh_calls s)
           \<and> announceSelf_calls s' = Suc (announceSelf_calls s))
       \<and> fst (getPlayerCharacter h s') = player\<lparr> Effects := built \<rparr>
       \<and> buildPlayerEffects builders h s' = s')
   \<and> run_builders (registerEffectBuilder builder builders) defaultBCXEffects =
       builder (run_builders builders defaultBCXEffects)"
proof -
  let ?built = "run_builders builders defaultBCXEffects"
  let ?player = "fst (getPlayerCharacter h s)"
  let ?s' = "buildPlayerEffects builders h s"
  have step: "if ?built = Effects ?player
        then ?s' = snd (getPlayerCharacter h s)
           \<and> CharacterRefresh_calls ?s' = CharacterRefresh_calls s
           \<and> announceSelf_calls ?s' = announceSelf_calls s
        else currentRoomCharacters ?s' =
               set_player_Effects h ?built (currentRoomCharacters (snd (getPlayerCharacter h s)))
           \<and> CharacterRefresh_calls ?s' = Suc (CharacterRefresh_calls s)
           \<and> announceSelf_calls ?s' = Suc (announceSelf_calls s)"
    by (simp add: buildPlayerEffects_eq getPlayerCharacter_counters)
  have again: "getPlayerCharacter h ?s' = (?player\<lparr> Effects := ?built \<rparr>, ?s')"
    by (rule getPlayerCharacter_cached [OF player_after_tick])
  then have carried: "fst (getPlayerCharacter h ?s') = ?player\<lparr> Effects := ?built \<rparr>"
    by simp
  have idle: "buildPlayerEffects builders h ?s' = ?s'"
    by (subst buildPlayerEffects_eq) (simp add: again)
  have order: "run_builders (registerEffectBuilder builder builders) defaultBCXEffects =
       builder ?built"
    by (simp add: registerEffectBuilder_def run_builders_append)
  from step carried idle order show ?thesis by (simp add: Let_def)
qed

theorem buildPlayerEffects_tick_witness:
  "CharacterRefresh_calls (buildPlayerEffects [add_blind] room bcx_init) = 1
   \<and> announceSelf_calls (buildPlayerEffects [add_blind] room bcx_init) = 1
   \<and> Effects (fst (getPlayerCharacter room (buildPlayerEffects [add_blind] room bcx_init))) =
        \<lparr> Effect = [''BlindHeavy''] \<rparr>
   \<and> buildPlayerEffects [add_blind] room (buildPlayerEffects [add_blind] room bcx_init) =
        buildPlayerEffects [add_blind] room bcx_init
   \<and> CharacterRefresh_calls (buildPlayerEffects [] room bcx_init) = 0"
proof -
  have p: "fst (getPlayerCharacter room bcx_init) = constructed True alice room"
    by (simp add: getPlayerCharacter_def new_ChatroomCharacter_def bcx_init_def room_def)
  have b: "add_blind \<lparr> Effect = [] \<rparr> = \<lparr> Effect = [''BlindHeavy''] \<rparr>"
    "defaultBCXEffects = \<lparr> Effect = [] \<rparr>"
    by (simp_all add: add_blind_def defaultBCXEffects_def)
  have e: "Effects (constructed True alice room) = \<lparr> Effect = [] \<rparr>"
    by (simp add: constructed_def defaultBCXEffects_def)
  have z: "CharacterRefresh_calls bcx_init = 0" "announceSelf_calls bcx_init = 0"
    by (simp_all add: bcx_init_def)
  note one = buildPlayerEffects_tick [of "[add_blind]" room bcx_init add_blind]
  note none = buildPlayerEffects_tick [of "[]" room bcx_init add_blind]
  have c1: "CharacterRefresh_calls (buildPlayerEffects [add_blind] room bcx_init) = 1"
    and a1: "announceSelf_calls (buildPlayerEffects [add_blind] room bcx_init) = 1"
    and e1: "Effects (fst (getPlayerCharacter room (buildPlayerEffects [add_blind] room bcx_init))) =
        \<lparr> Effect = [''BlindHeavy''] \<rparr>"
    and i1: "buildPlayerEffects [add_blind] room (buildPlayerEffects [add_blind] room bcx_init) =
        buildPlayerEffects [add_blind] room bcx_init"
    using one by (simp_all add: Let_def p b e z)
  have c0: "CharacterRefresh_calls (buildPlayerEffects [] room bcx_init) = 0"
    using none by (simp add: Let_def p b e z getPlayerCharacter_counters)
  from c1 a1 e1 i1 c0 show ?thesis by blast
qed

section \<open>Methods of the two variants\<close>

text \<open>
  C9. When a call of \<open>getPermissionAccess\<close> on a remote proxy has returned, the promise
  it made never rejects: it resolves with the answer when the answer is a boolean, and
  with \<open>false\<close> when the promise of \<open>sendQuery\<close> rejects (timeout, initialisation,
  \<open>ok: false\<close> from the peer) or the answer is not a boolean. The other remote methods,
  which check the answer and have no \<open>catch\<close>, reject in both cases.
\<close>

theorem getPermissionAccess_never_rejects:
  assumes "ChatroomCharacter_getPermissionAccess this permission qid h s0 = Inr sent"
  shows "(\<forall>r. fst (getPermissionAccess_settles this permission (Rejected r) s) =
               Resolved (JBool False))
       \<and> (\<forall>data. typeof data \<noteq> TBoolean \<longrightarrow>
             fst (getPermissionAccess_settles this permission (Resolved data) s) =
               Resolved (JBool False))
       \<and> (\<forall>b. fst (getPermissionAccess_settles this permission (Resolved (JBool b)) s) =
               Resolved (JBool b))
       \<and> (\<forall>answer r. fst (getPermissionAccess_settles this permission answer s) \<noteq> Rejected r)
       \<and> (\<forall>query valid result r.
             fst (remote_method_settles query valid result (Rejected r) s) = Rejected r)
       \<and> (\<forall>query valid result data. \<not> valid data \<longrightarrow>
             fst (remote_method_settles query valid result (Resolved data) s) =
               Rejected (Thrown (Error ''Bad data'')))"
proof -
  from assms obtain n where n: "get_MemberNumber this = Inr n"
    by (auto simp add: ChatroomCharacter_getPermissionAccess_def split: sum.splits)
  have rej: "\<forall>r. fst (getPermissionAccess_settles this permission (Rejected r) s) =
               Resolved (JBool False)"
    by (simp add: getPermissionAccess_settles_def getPermissionAccess_catch_def n
        callback_result_def)
  have bad: "\<forall>data. typeof data \<noteq> TBoolean \<longrightarrow>
             fst (getPermissionAccess_settles this permission (Resolved data) s) =
               Resolved (JBool False)"
    by (simp add: getPermissionAccess_settles_def getPermissionAccess_catch_def n
        callback_result_def validate_answer_def is_boolean_def)
  have good: "\<forall>b. fst (getPermissionAccess_settles this permission (Resolved (JBool b)) s) =
               Resolved (JBool b)"
    by (simp add: getPermissionAccess_settles_def callback_result_def validate_answer_def
        is_boolean_def)
  have never: "\<forall>answer r. fst (getPermissionAccess_settles this permission answer s) \<noteq> Rejected r"
  proof (intro allI)
    fix answer r
    show "fst (getPermissionAccess_settles this permission answer s) \<noteq> Rejected r"
    proof (cases answer)
      case (Resolved data)
      show ?thesis
      proof (cases "typeof data = TBoolean")
        case True
        then obtain b where "data = JBool b" by (cases data) simp_all
        with good Resolved show ?thesis by simp
      next
        case False
        with bad Resolved show ?thesis by simp
      qed
    next
      case (Rejected x)
      with rej show ?thesis by simp
    qed
  qed
  have others: "\<forall>query valid result r.
             fst (remote_method_settles query valid result (Rejected r) s) = Rejected r"
    "\<forall>query valid result data. \<not> valid data \<longrightarrow>
             fst (remote_method_settles query valid result (Resolved data) s) =
               Rejected (Thrown (Error ''Bad data''))"
    by (simp_all add: remote_method_settles_def validate_answer_def callback_result_def)
  from rej bad good never others show ?thesis by blast
qed

theorem getPermissionAccess_never_rejects_witness:
  "ChatroomCharacter_getPermissionAccess bob_proxy ''log_view'' ''q3'' room bcx_init =
     Inr (sendQuery ''permissionAccess'' (JStr ''log_view'') 2 10000 ''q3'' room bcx_init)
   \<and> fst (getPermissionAccess_settles bob_proxy ''log_view''
            (Rejected (Reason (JStr ''Timed out''))) bcx_init) = Resolved (JBool False)
   \<and> typeof (JStr ''yes'') \<noteq> TBoolean
   \<and> fst (getPermissionAccess_settles bob_proxy ''log_view'' (Resolved (JStr ''yes'')) bcx_init) =
        Resolved (JBool False)
   \<and> fst (setPermission_settles (Rejected (Reason (JStr ''Timed out''))) bcx_init) =
        Rejected (Reason (JStr ''Timed out''))
   \<and> \<not> is_boolean (JStr ''yes'')
   \<and> fst (setPermission_settles (Resolved (JStr ''yes'')) bcx_init) =
        Rejected (Thrown (Error ''Bad data''))"
proof -
  have call: "ChatroomCharacter_getPermissionAccess bob_proxy ''log_view'' ''q3'' room bcx_init =
     Inr (sendQuery ''permissionAccess'' (JStr ''log_view'') 2 10000 ''q3'' room bcx_init)"
    by (simp add: ChatroomCharacter_getPermissionAccess_def get_MemberNumber_def bob_proxy_def
        constructed_def bob_def)
  have shape: "typeof (JStr ''yes'') \<noteq> TBoolean" "\<not> is_boolean (JStr ''yes'')"
    by (simp_all add: is_boolean_def)
  from getPermissionAccess_never_rejects [OF call, of bcx_init] call shape
  show ?thesis
    unfolding setPermission_settles_def by blast
qed

lemma sendQuery_ServerSend:
  "\<not> firstTimeInit h \<Longrightarrow>
     ServerSend (snd (sendQuery type data n delay qid h s)) =
       ServerSend s @
         (if ServerPlayerIsInChatRoom h
          then [\<lparr> Content = ''BCXMsg'', Type = ''Hidden'', Target = Some n,
                  Dictionary = JObj [(''type'', JStr ''query''),
                    (''message'', JObj [(''id'', JStr qid), (''query'', JStr type),
                                       (''data'', data)])] \<rparr>]
          else [])"
  by (simp add: sendQuery_def sendHiddenMessage_def Let_def)

text \<open>
  C5, as stated, fails for the remote variant: asked to set the "self" axis of a permission
  to the number 5, Bob's proxy raises nothing and sends the query, the number in it.
\<close>

theorem setPermission_counterexample:
  "typeof (JNum 5) \<noteq> TBoolean
   \<and> map_sum (\<lambda>e. e) (ServerSend \<circ> snd)
        (ChatroomCharacter_setPermission bob_proxy ''log_view'' ''self'' (JNum 5) ''q4'' room
           bcx_init) =
      Inr [editPermission_query ''q4'' ''log_view'' ''self'' (JNum 5) 2]"
proof -
  have "get_MemberNumber bob_proxy = Inr 2"
    by (simp add: get_MemberNumber_def bob_proxy_def constructed_def bob_def)
  moreover have "\<not> firstTimeInit room" "ServerPlayerIsInChatRoom room" "ServerSend bcx_init = []"
    by (simp_all add: room_def bcx_init_def)
  ultimately show ?thesis
    by (simp add: ChatroomCharacter_setPermission_def sendQuery_ServerSend
        editPermission_query_def)
qed

text \<open>
  C5 (amended). The self variant signals a target of the wrong shape at once, by
  throwing: a non-boolean for the mode "self", a non-number for the mode "min"; no
  function of the authority module runs and nothing is sent. The remote variant makes
  no such check: in a chat room and past the first initialisation, the proxy of a character
  with a member number sends the \<open>editPermission\<close> query with the target as given.
\<close>

theorem setPermission_wrong_shape:
  "(typeof target' \<noteq> TBoolean \<longrightarrow>
      PlayerCharacter_setPermission auth this permission ''self'' target' s =
        Inl (Error ''Invalid target value for self permission edit''))
   \<and> (typeof target' \<noteq> TNumber \<longrightarrow>
      PlayerCharacter_setPermission auth this permission ''min'' target' s =
        Inl (Error ''Invalid target value for min permission edit''))
   \<and> (\<forall>n. MemberNumber (Character this) = Some n \<and> ServerPlayerIsInChatRoom h
           \<and> \<not> firstTimeInit h \<longrightarrow>
        map_sum (\<lambda>e. e) (ServerSend \<circ> snd)
          (ChatroomCharacter_setPermission this permission type target' qid h s) =
        Inr (ServerSend s @ [editPermission_query qid permission type target' n]))"
proof -
  have self: "typeof target' \<noteq> TBoolean \<longrightarrow>
      PlayerCharacter_setPermission auth this permission ''self'' target' s =
        Inl (Error ''Invalid target value for self permission edit'')"
    by (cases target') (simp_all add: PlayerCharacter_setPermission_def)
  have min: "typeof target' \<noteq> TNumber \<longrightarrow>
      PlayerCharacter_setPermission auth this permission ''min'' target' s =
        Inl (Error ''Invalid target value for min permission edit'')"
    by (cases target') (simp_all add: PlayerCharacter_setPermission_def)
  have remote: "\<forall>n. MemberNumber (Character this) = Some n \<and> ServerPlayerIsInChatRoom h
           \<and> \<not> firstTimeInit h \<longrightarrow>
        map_sum (\<lambda>e. e) (ServerSend \<circ> snd)
          (ChatroomCharacter_setPermission this permission type target' qid h s) =
        Inr (ServerSend s @ [editPermission_query qid permission type target' n])"
    by (simp add: ChatroomCharacter_setPermission_def get_MemberNumber_def
        sendQuery_ServerSend editPermission_query_def)
  from self min remote show ?thesis by blast
qed

theorem setPermission_wrong_shape_witness:
  "typeof (JNum 5) \<noteq> TBoolean
   \<and> PlayerCharacter_setPermission granting alice_proxy ''log_view'' ''self'' (JNum 5) bcx_init =
        Inl (Error ''Invalid target value for self permission edit'')
   \<and> typeof (JBool True) \<noteq> TNumber
   \<and> PlayerCharacter_setPermission granting alice_proxy ''log_view'' ''min'' (JBool True) bcx_init =
        Inl (Error ''Invalid target value for min permission edit'')
   \<and> PlayerCharacter_setPermission granting alice_proxy ''log_view'' ''self'' (JBool True) bcx_init =
        Inr (Resolved (JBool True), bcx_init)"
proof -
  have ok: "PlayerCharacter_setPermission granting alice_proxy ''log_view'' ''self'' (JBool True)
      bcx_init = Inr (Resolved (JBool True), bcx_init)"
    by (simp add: PlayerCharacter_setPermission_def granting_def)
  from setPermission_wrong_shape [of "JNum 5" granting alice_proxy "''log_view''" bcx_init]
    setPermission_wrong_shape [of "JBool True" granting alice_proxy "''log_view''" bcx_init]
    ok
  show ?thesis by simp
qed

end
